theory Spec2Isabelle
  imports Complex_Main "HOL-Library.Sublist"
begin

section \<open>JavaScript numbers\<close>

text \<open>
  A JavaScript \<open>number\<close> is an IEEE 754 binary64 value. The finite values are modelled by
  the rationals they denote, the three special values by constructors of their own. Every
  arithmetic operation computes the exact rational result and rounds it to the nearest
  binary64 value, ties to even (\<open>round_double\<close>), overflowing to an infinity
  when the rounded magnitude \<open>m * 2 ^ q\<close> reaches \<open>2 ^ 1024\<close>, that is when the bit
  length of \<open>m\<close> plus \<open>q\<close> exceeds 1024. The sign of
  zero is not modelled: \<open>Fin 0\<close> stands for both zeros, and a division of a non-zero
  number by zero takes the sign of the dividend.
\<close>

datatype jsnum = Fin rat | PInf | NInf | NaN

definition pow2 :: "int \<Rightarrow> rat" where
  "pow2 k = (if 0 \<le> k then 2 ^ nat k else 1 / 2 ^ nat (- k))"

function bit_length :: "int \<Rightarrow> int" where
  "bit_length n = (if n \<le> 0 then 0 else 1 + bit_length (n div 2))"
  by pat_completeness auto
termination
  by (relation "measure nat") auto

declare bit_length.simps [simp del]

definition exponent2 :: "rat \<Rightarrow> int" where
  \<comment> \<open>for \<open>0 < x\<close>: the \<open>e\<close> with \<open>2 ^ e \<le> x < 2 ^ (e + 1)\<close>\<close>
  "exponent2 x =
     (case quotient_of x of (p, q) \<Rightarrow>
        (let d = bit_length p - bit_length q
         in if pow2 d \<le> x then d else d - 1))"

definition round_half_even :: "rat \<Rightarrow> int" where
  "round_half_even y =
     (let f = \<lfloor>y\<rfloor>; r = y - of_int f
      in if r < 1 / 2 then f else if 1 / 2 < r then f + 1
         else if even f then f else f + 1)"

definition round_double :: "rat \<Rightarrow> jsnum" where
  "round_double x =
     (if x = 0 then Fin 0
      else
        (let a = \<bar>x\<bar>;
             e = exponent2 a;
             q = max (e - 52) (- 1074);
             m = round_half_even (a / pow2 q)
         in if 1024 < bit_length m + q then (if 0 < x then PInf else NInf)
            else Fin (sgn x * (of_int m * pow2 q))))"

fun fadd :: "jsnum \<Rightarrow> jsnum \<Rightarrow> jsnum" where
  "fadd NaN _ = NaN"
| "fadd _ NaN = NaN"
| "fadd (Fin a) (Fin b) = round_double (a + b)"
| "fadd PInf NInf = NaN"
| "fadd NInf PInf = NaN"
| "fadd PInf _ = PInf"
| "fadd NInf _ = NInf"
| "fadd (Fin _) y = y"

fun fneg :: "jsnum \<Rightarrow> jsnum" where
  "fneg (Fin a) = Fin (- a)"
| "fneg PInf = NInf"
| "fneg NInf = PInf"
| "fneg NaN = NaN"

definition fsub :: "jsnum \<Rightarrow> jsnum \<Rightarrow> jsnum" where
  "fsub x y = fadd x (fneg y)"

definition inf_of_sign :: "bool \<Rightarrow> jsnum" where
  "inf_of_sign positive = (if positive then PInf else NInf)"

fun fmul :: "jsnum \<Rightarrow> jsnum \<Rightarrow> jsnum" where
  "fmul NaN _ = NaN"
| "fmul _ NaN = NaN"
| "fmul (Fin a) (Fin b) = round_double (a * b)"
| "fmul (Fin a) PInf = (if a = 0 then NaN else inf_of_sign (0 < a))"
| "fmul (Fin a) NInf = (if a = 0 then NaN else inf_of_sign (a < 0))"
| "fmul PInf (Fin b) = (if b = 0 then NaN else inf_of_sign (0 < b))"
| "fmul NInf (Fin b) = (if b = 0 then NaN else inf_of_sign (b < 0))"
| "fmul PInf PInf = PInf"
| "fmul NInf NInf = PInf"
| "fmul PInf NInf = NInf"
| "fmul NInf PInf = NInf"

fun fdiv :: "jsnum \<Rightarrow> jsnum \<Rightarrow> jsnum" where
  "fdiv NaN _ = NaN"
| "fdiv _ NaN = NaN"
| "fdiv (Fin a) (Fin b) =
     (if b = 0 then (if a = 0 then NaN else inf_of_sign (0 < a))
      else round_double (a / b))"
| "fdiv (Fin _) _ = Fin 0"
| "fdiv PInf (Fin b) = inf_of_sign (0 \<le> b)"
| "fdiv NInf (Fin b) = inf_of_sign (b < 0)"
| "fdiv _ _ = NaN"

definition truncate_rat :: "rat \<Rightarrow> int" where
  "truncate_rat y = (if 0 \<le> y then \<lfloor>y\<rfloor> else \<lceil>y\<rceil>)"

fun fmod :: "jsnum \<Rightarrow> jsnum \<Rightarrow> jsnum" where
  \<comment> \<open>the \<open>%\<close> operator: the remainder is exact and has the sign of the dividend\<close>
  "fmod NaN _ = NaN"
| "fmod _ NaN = NaN"
| "fmod (Fin a) (Fin b) =
     (if b = 0 then NaN else Fin (a - b * of_int (truncate_rat (a / b))))"
| "fmod (Fin a) _ = Fin a"
| "fmod _ _ = NaN"

fun flt :: "jsnum \<Rightarrow> jsnum \<Rightarrow> bool" where
  "flt (Fin a) (Fin b) = (a < b)"
| "flt (Fin _) PInf = True"
| "flt NInf (Fin _) = True"
| "flt NInf PInf = True"
| "flt _ _ = False"

fun feq :: "jsnum \<Rightarrow> jsnum \<Rightarrow> bool" where
  "feq NaN _ = False"
| "feq _ NaN = False"
| "feq x y = (x = y)"

definition fgt :: "jsnum \<Rightarrow> jsnum \<Rightarrow> bool" where
  "fgt x y = flt y x"

definition fle :: "jsnum \<Rightarrow> jsnum \<Rightarrow> bool" where
  "fle x y = (flt x y \<or> feq x y)"

definition fge :: "jsnum \<Rightarrow> jsnum \<Rightarrow> bool" where
  "fge x y = (flt y x \<or> feq x y)"

definition num_of_int :: "int \<Rightarrow> jsnum" where
  \<comment> \<open>an integer literal, or an integer-valued \<open>number\<close>\<close>
  "num_of_int i = round_double (of_int i)"


section \<open>Errors\<close>

text \<open>
  Every exception of the source is a value of this type; a function that can throw returns
  \<open>error + 'a\<close>, with \<open>Inl\<close> for the exception. The messages are not modelled, only which
  \<open>throw\<close> (of the source or of the ethers library) raised the exception.
\<close>

datatype error =
    RpcFailure                \<comment> \<open>a remote call was rejected or timed out\<close>
  | InvalidBigNumberString    \<comment> \<open>\<open>BigNumber.from\<close> on a malformed string\<close>
  | NumericOverflow           \<comment> \<open>\<open>BigNumber.toNumber\<close> beyond 53 bits\<close>
  | InvalidDecimals           \<comment> \<open>\<open>formatUnits\<close> with decimals outside 0..256\<close>
  | AllEndpointsFailed        \<comment> \<open>\<open>Unable to connect to ...\<close>\<close>
  | ConnectFailed             \<comment> \<open>\<open>Failed to connect to network after 3 attempts\<close>\<close>
  | NoConnection              \<comment> \<open>\<open>Could not establish network connection\<close>\<close>
  | GetTokenInfoError         \<comment> \<open>the error \<open>getTokenInfo\<close> rethrows from its \<open>catch\<close>\<close>
  | TokenInfoFailed           \<comment> \<open>\<open>Failed to retrieve token information: ...\<close>\<close>
  | CurrentBlockFailed        \<comment> \<open>\<open>Failed to get current block: ...\<close>\<close>

section \<open>Big numbers of the ethers library\<close>

text \<open>
  \<open>ethers.BigNumber\<close> is an arbitrary-precision integer, modelled by \<open>int\<close>.
  \<open>BigNumber.from\<close> accepts a string matching \<open>/^-?0x[0-9a-f]+$/i\<close> or
  \<open>/^-?[0-9]+$/\<close> and throws on any other string; \<open>toString\<close> prints in decimal;
  \<open>div\<close> truncates toward zero; \<open>toNumber\<close> throws when the magnitude needs more than
  53 bits. A hexadecimal string is read with the prefix \<open>0x\<close> in lower case only: the
  test of \<open>BigNumber.from\<close> ignores case, but with the prefix \<open>0X\<close> the library keeps
  the string as it is and the first operation on the number throws. In every function
  of this program that exception has the effect that a failure of \<open>BigNumber.from\<close>
  itself has (the same handler receives both, and the only \<open>return\<close> that can come
  before the operation, on a supply of zero, returns what the handler returns), so
  the model lets \<open>BigNumber.from\<close> fail on these strings.
\<close>

definition dec_digit :: "char \<Rightarrow> int option" where
  "dec_digit c =
     (let n = (of_char c :: int) in if 48 \<le> n \<and> n \<le> 57 then Some (n - 48) else None)"

definition hex_digit :: "char \<Rightarrow> int option" where
  "hex_digit c =
     (let n = (of_char c :: int)
      in if 48 \<le> n \<and> n \<le> 57 then Some (n - 48)
         else if 97 \<le> n \<and> n \<le> 102 then Some (n - 87)
         else if 65 \<le> n \<and> n \<le> 70 then Some (n - 55)
         else None)"

fun parse_digits :: "(char \<Rightarrow> int option) \<Rightarrow> int \<Rightarrow> int \<Rightarrow> string \<Rightarrow> int option" where
  "parse_digits digit base acc [] = Some acc"
| "parse_digits digit base acc (c # cs) =
     (case digit c of
        None \<Rightarrow> None
      | Some d \<Rightarrow> parse_digits digit base (acc * base + d) cs)"

definition parse_unsigned :: "string \<Rightarrow> int option" where
  "parse_unsigned s =
     (case s of
        [] \<Rightarrow> None
      | c # cs \<Rightarrow>
          (if c = CHR ''0'' \<and> cs \<noteq> [] \<and> hd cs = CHR ''x''
           then (if tl cs = [] then None else parse_digits hex_digit 16 0 (tl cs))
           else parse_digits dec_digit 10 0 s))"

definition BigNumber_from :: "string \<Rightarrow> error + int" where
  "BigNumber_from s =
     (case (case s of
              c # cs \<Rightarrow> (if c = CHR ''-'' then map_option uminus (parse_unsigned cs)
                         else parse_unsigned s)
            | [] \<Rightarrow> None) of
        None \<Rightarrow> Inl InvalidBigNumberString
      | Some i \<Rightarrow> Inr i)"

definition digit_char :: "int \<Rightarrow> char" where
  "digit_char d = char_of (48 + d)"

function show_digits :: "int \<Rightarrow> string" where
  "show_digits n = (if n < 10 then [digit_char n] else show_digits (n div 10) @ [digit_char (n mod 10)])"
  by pat_completeness auto
termination
  by (relation "measure nat") auto

declare show_digits.simps [simp del]

definition BigNumber_toString :: "int \<Rightarrow> string" where
  "BigNumber_toString i = (if i < 0 then CHR ''-'' # show_digits (- i) else show_digits i)"

definition BigNumber_div :: "int \<Rightarrow> int \<Rightarrow> int" where
  \<comment> \<open>only called with a non-zero divisor\<close>
  "BigNumber_div a b = sgn a * sgn b * (\<bar>a\<bar> div \<bar>b\<bar>)"

definition BigNumber_toNumber :: "int \<Rightarrow> error + jsnum" where
  "BigNumber_toNumber i =
     (if \<bar>i\<bar> < 9007199254740992 then Inr (Fin (of_int i)) else Inl NumericOverflow)"

definition parseFloat_formatUnits :: "string \<Rightarrow> int \<Rightarrow> error + jsnum" where
  \<comment> \<open>\<open>parseFloat(ethers.utils.formatUnits(value, decimals))\<close>: \<open>formatUnits\<close> prints the
      exact decimal expansion of \<open>value / 10 ^ decimals\<close>, \<open>parseFloat\<close> rounds it\<close>
  "parseFloat_formatUnits v decimals =
     (if 0 \<le> decimals \<and> decimals \<le> 256 then
        (case BigNumber_from v of
           Inl e \<Rightarrow> Inl e
         | Inr i \<Rightarrow> Inr (round_double (of_int i / 10 ^ nat decimals)))
      else Inl InvalidDecimals)"

section \<open>Data model\<close>

record TokenInfo =
  address :: string
  name :: string
  symbol :: string
  decimals :: int
  totalSupply :: string
  isERC20Compliant :: bool
  chainId :: int

text \<open>
  The fields \<open>from\<close>, \<open>to\<close> and \<open>value\<close> of a transfer are \<open>from_address\<close>,
  \<open>to_address\<close> and \<open>value_string\<close> here, the field \<open>isLargeTransfer\<close> is
  \<open>isLargeTransferFlag\<close> (the function \<open>isLargeTransfer\<close> keeps the name).
\<close>

record TokenTransfer =
  transactionHash :: string
  from_address :: string
  to_address :: string
  value_string :: string
  timestamp :: int
  isLargeTransferFlag :: bool

text \<open>The fields \<open>priceChange24h\<close> and \<open>volume24h\<close> are never set and are left out.\<close>

record TokenMarketData =
  price :: jsnum
  marketCap :: jsnum
  fullyDilutedCap :: "jsnum option"
  marketCapDifference :: "jsnum option"
  marketCapDifferencePercent :: "jsnum option"
  offMarketSalesAbove :: "jsnum option"
  offMarketSalesBelow :: "jsnum option"
  offMarketSalesPercentage :: "jsnum option"

record TokenMetrics =
  tokenInfo :: TokenInfo
  marketData :: "TokenMarketData option"
  recentTransfers :: "TokenTransfer list"
  largeTransfers :: "TokenTransfer list"

text \<open>
  Of an \<open>ethers.providers.Block\<close> only the hash, the number and the timestamp are kept: the
  other fields are never read.
\<close>

record Block =
  block_hash :: string
  block_number :: int
  block_timestamp :: int

text \<open>
  An \<open>ethers.Event\<close> of the \<open>Transfer\<close> filter. \<open>event_args\<close> is \<open>None\<close> when the event has
  no \<open>args\<close> or fewer than three, otherwise the sender, the recipient and the amount.
\<close>

record Event =
  event_transactionHash :: string
  event_blockNumber :: int
  event_args :: "(string \<times> string \<times> int) option"

section \<open>TransferClassifier\<close>

definition isLargeTransferCheck :: "string \<Rightarrow> string \<Rightarrow> bool" where
  "isLargeTransferCheck v supply =
     (if v = [] \<or> supply = [] then False
      else
        (case BigNumber_from v of
           Inl _ \<Rightarrow> False
         | Inr valueBN \<Rightarrow>
             (case BigNumber_from supply of
                Inl _ \<Rightarrow> False
              | Inr totalSupplyBN \<Rightarrow>
                  (if totalSupplyBN = 0 then False
                   else
                     (let threshold = round_double (5 / 1000)
                      in case BigNumber_toNumber (BigNumber_div (valueBN * 100) totalSupplyBN) of
                           Inl _ \<Rightarrow> False
                         | Inr n \<Rightarrow> fge (fdiv n (num_of_int 100)) threshold)))))"

definition LARGE_TRANSFER_THRESHOLD :: jsnum where
  "LARGE_TRANSFER_THRESHOLD = round_double (5 / 1000)"

definition isLargeTransfer :: "string \<Rightarrow> string \<Rightarrow> bool" where
  \<comment> \<open>\<open>Math.floor(thresholdPercentage * 10)\<close> is \<open>5\<close>\<close>
  "isLargeTransfer v supply =
     (case BigNumber_from v of
        Inl _ \<Rightarrow> False
      | Inr valueBN \<Rightarrow>
          (case BigNumber_from supply of
             Inl _ \<Rightarrow> False
           | Inr totalSupplyBN \<Rightarrow>
               (if totalSupplyBN = 0 then False
                else
                  (let thresholdValueBN = BigNumber_div (totalSupplyBN * 5) 1000
                   in thresholdValueBN \<le> valueBN))))"


section \<open>MarketMetricsCalculator: the pure part\<close>

definition calculateMarketCap :: "string \<Rightarrow> int \<Rightarrow> jsnum \<Rightarrow> jsnum" where
  "calculateMarketCap supply decs p =
     (case parseFloat_formatUnits supply decs of
        Inl _ \<Rightarrow> Fin 0
      | Inr formattedSupply \<Rightarrow> fmul formattedSupply p)"

definition calculateFullyDilutedCap :: "string \<Rightarrow> int \<Rightarrow> jsnum \<Rightarrow> string option \<Rightarrow> jsnum" where
  "calculateFullyDilutedCap supply decs p maxSupply =
     (let supplyToUse = (case maxSupply of
                           None \<Rightarrow> supply
                         | Some m \<Rightarrow> (if m = [] then supply else m))
      in case parseFloat_formatUnits supplyToUse decs of
           Inl _ \<Rightarrow> Fin 0
         | Inr formattedSupply \<Rightarrow> fmul formattedSupply p)"

record MarketCapDifference =
  difference :: jsnum
  percentDifference :: jsnum

definition calculateMarketCapDifference :: "jsnum \<Rightarrow> jsnum \<Rightarrow> MarketCapDifference" where
  "calculateMarketCapDifference cap dilutedCap =
     (let d = fsub dilutedCap cap
      in \<lparr>difference = d,
          percentDifference =
            (if fgt cap (Fin 0) then fmul (fdiv d cap) (num_of_int 100) else Fin 0)\<rparr>)"

section \<open>The remote service and the process-wide state\<close>

text \<open>
  A provider is the URL of its endpoint. Every remote call is recorded in the trace
  \<open>calls\<close>. What the service answers is given by the environment, as a function of the
  number of remote calls made before (so that the same request can be answered
  differently at different times); \<open>None\<close> is a rejected promise or, for a call under
  \<open>withTimeout\<close>, its timeout. Every promise is taken to settle, and a resolved promise
  to carry a value of its declared type. \<open>Date.now()\<close> and \<open>Math.random()\<close> are answered
  by the environment too, as functions of the number of earlier reads.
  \<open>ethers.utils.isAddress\<close> (a format and checksum test) is a parameter.
\<close>

datatype call =
    GetBlockNumber string
  | GetBlock string int
  | GetBlockLatest string
  | GetNetwork string
  | GetCode string string
  | CallName string string
  | CallSymbol string string
  | CallDecimals string string
  | CallTotalSupply string string
  | QueryFilter string string int int

record env =
  isAddress :: "string \<Rightarrow> bool"
  rpc_getBlockNumber :: "nat \<Rightarrow> string \<Rightarrow> int option"
  rpc_getBlock :: "nat \<Rightarrow> string \<Rightarrow> int \<Rightarrow> Block option"
  rpc_getBlockLatest :: "nat \<Rightarrow> string \<Rightarrow> Block option"
  rpc_getNetwork :: "nat \<Rightarrow> string \<Rightarrow> int option"
  rpc_getCode :: "nat \<Rightarrow> string \<Rightarrow> string \<Rightarrow> string option"
  rpc_name :: "nat \<Rightarrow> string \<Rightarrow> string \<Rightarrow> string option"
  rpc_symbol :: "nat \<Rightarrow> string \<Rightarrow> string \<Rightarrow> string option"
  rpc_decimals :: "nat \<Rightarrow> string \<Rightarrow> string \<Rightarrow> int option"
  rpc_totalSupply :: "nat \<Rightarrow> string \<Rightarrow> string \<Rightarrow> int option"
  rpc_queryFilter :: "nat \<Rightarrow> string \<Rightarrow> string \<Rightarrow> int \<Rightarrow> int \<Rightarrow> Event list option"
  tokenInfoTimeout :: "nat \<Rightarrow> bool"
  date_now :: "nat \<Rightarrow> int"
  math_random :: "nat \<Rightarrow> rat"

record world =
  calls :: "call list"
  blockCache :: "int \<rightharpoonup> Block"
  lastSuccessfulRpcByChain :: "int \<rightharpoonup> string"
  clock_reads :: nat
  random_draws :: nat

definition remote :: "call \<Rightarrow> (nat \<Rightarrow> 'a option) \<Rightarrow> world \<Rightarrow> (error + 'a) \<times> world" where
  "remote c answer w =
     ((case answer (length (calls w)) of None \<Rightarrow> Inl RpcFailure | Some v \<Rightarrow> Inr v),
      w\<lparr>calls := calls w @ [c]\<rparr>)"

definition Date_now :: "env \<Rightarrow> world \<Rightarrow> int \<times> world" where
  "Date_now en w = (date_now en (clock_reads w), w\<lparr>clock_reads := Suc (clock_reads w)\<rparr>)"

definition Math_random :: "env \<Rightarrow> world \<Rightarrow> jsnum \<times> world" where
  "Math_random en w =
     (Fin (math_random en (random_draws w)), w\<lparr>random_draws := Suc (random_draws w)\<rparr>)"

section \<open>MarketMetricsCalculator: the off-market heuristic\<close>

definition startsWith :: "string \<Rightarrow> string \<Rightarrow> bool" where
  "startsWith s p = (take (length p) s = p)"

definition isBelowMarketPrice :: "env \<Rightarrow> world \<Rightarrow> TokenTransfer \<Rightarrow> (error + bool) \<times> world" where
  "isBelowMarketPrice en w transfer =
     (if startsWith (to_address transfer) ''0x00'' then (Inr True, w)
      else
        (case parseFloat_formatUnits (value_string transfer) 18 of
           Inl e \<Rightarrow> (Inl e, w)
         | Inr valueInEther \<Rightarrow>
             (let isRoundNumber = feq (fmod valueInEther (num_of_int 10)) (Fin 0)
              in case Date_now en w of
                   (now, w1) \<Rightarrow>
                     (let isRecentTransfer =
                            flt (fsub (fdiv (num_of_int now) (num_of_int 1000))
                                      (num_of_int (timestamp transfer)))
                                (num_of_int (60 * 60 * 24))
                      in case Math_random en w1 of
                           (r, w2) \<Rightarrow>
                             (if isRoundNumber \<and> isRecentTransfer
                              then (Inr (fgt r (round_double (7 / 10))), w2)
                              else (Inr (fgt r (round_double (5 / 10))), w2))))))"

record Volumes =
  totalVolumeTokens :: jsnum
  abovePriceVolume :: jsnum
  belowPriceVolume :: jsnum

definition noVolumes :: Volumes where
  \<comment> \<open>the three accumulators start at 0\<close>
  "noVolumes = \<lparr>totalVolumeTokens = Fin 0, abovePriceVolume = Fin 0, belowPriceVolume = Fin 0\<rparr>"

text \<open>The body of \<open>largeTransfers.forEach\<close>, run over the large transfers in order.\<close>

fun forEachLargeTransfer ::
  "env \<Rightarrow> world \<Rightarrow> int \<Rightarrow> Volumes \<Rightarrow> TokenTransfer list \<Rightarrow> (error + Volumes) \<times> world" where
  "forEachLargeTransfer en w decs vol [] = (Inr vol, w)"
| "forEachLargeTransfer en w decs vol (transfer # rest) =
     (case parseFloat_formatUnits (value_string transfer) decs of
        Inl e \<Rightarrow> (Inl e, w)
      | Inr transferAmount \<Rightarrow>
          (let vol1 = vol\<lparr>totalVolumeTokens := fadd (totalVolumeTokens vol) transferAmount\<rparr>
           in case isBelowMarketPrice en w transfer of
                (Inl e, w') \<Rightarrow> (Inl e, w')
              | (Inr isBelowPrice, w') \<Rightarrow>
                  (if isBelowPrice
                   then forEachLargeTransfer en w' decs
                          (vol1\<lparr>belowPriceVolume := fadd (belowPriceVolume vol1) transferAmount\<rparr>) rest
                   else forEachLargeTransfer en w' decs
                          (vol1\<lparr>abovePriceVolume := fadd (abovePriceVolume vol1) transferAmount\<rparr>) rest)))"

record OffMarketSales =
  abovePrice :: jsnum
  belowPrice :: jsnum
  percentage :: jsnum
  volumeUSD :: jsnum

definition analyzeOffMarketSales ::
  "env \<Rightarrow> world \<Rightarrow> TokenTransfer list \<Rightarrow> TokenInfo \<Rightarrow> jsnum \<Rightarrow> (error + OffMarketSales) \<times> world" where
  "analyzeOffMarketSales en w transfers info currentPrice =
     (if transfers = [] \<or> fle currentPrice (Fin 0)
      then (Inr \<lparr>abovePrice = Fin 0, belowPrice = Fin 0, percentage = Fin 0, volumeUSD = Fin 0\<rparr>, w)
      else
        (case parseFloat_formatUnits (totalSupply info) (decimals info) of
           Inl e \<Rightarrow> (Inl e, w)
         | Inr totalSupplyTokens \<Rightarrow>
             (case forEachLargeTransfer en w (decimals info) noVolumes
                     (filter isLargeTransferFlag transfers) of
                (Inl e, w') \<Rightarrow> (Inl e, w')
              | (Inr vol, w') \<Rightarrow>
                  (let totalVolumeUSD = fmul (totalVolumeTokens vol) currentPrice;
                       cap = calculateMarketCap (totalSupply info) (decimals info) currentPrice;
                       abovePricePercent =
                         fmul (fdiv (fmul (abovePriceVolume vol) currentPrice) cap) (num_of_int 100);
                       belowPricePercent =
                         fmul (fdiv (fmul (belowPriceVolume vol) currentPrice) cap) (num_of_int 100);
                       totalPercentage =
                         fmul (fdiv (totalVolumeTokens vol) totalSupplyTokens) (num_of_int 100)
                   in (Inr \<lparr>abovePrice = abovePricePercent, belowPrice = belowPricePercent,
                             percentage = totalPercentage, volumeUSD = totalVolumeUSD\<rparr>, w')))))"


section \<open>EndpointSelector\<close>

text \<open>The \<open>id\<close> and \<open>rpcUrl\<close> columns of the table \<open>SUPPORTED_CHAINS\<close>.\<close>

definition SUPPORTED_CHAINS :: "(int \<times> string) list" where
  "SUPPORTED_CHAINS =
     [(1, ''https://mainnet.infura.io/v3/9aa3d95b3bc440fa88ea12eaa4456161''),
      (5, ''https://goerli.infura.io/v3/9aa3d95b3bc440fa88ea12eaa4456161''),
      (11155111, ''https://sepolia.infura.io/v3/9aa3d95b3bc440fa88ea12eaa4456161''),
      (137, ''https://polygon-mainnet.g.alchemy.com/v2/demo''),
      (80001, ''https://polygon-mumbai.g.alchemy.com/v2/demo''),
      (56, ''https://bsc-dataseed.binance.org''),
      (43114, ''https://api.avax.network/ext/bc/C/rpc''),
      (42161, ''https://arb1.arbitrum.io/rpc''),
      (10, ''https://mainnet.optimism.io'')]"

definition getRpcUrl :: "int \<Rightarrow> string" where
  "getRpcUrl chain =
     (case map_of SUPPORTED_CHAINS chain of
        None \<Rightarrow> ''https://rpc.ankr.com/eth''
      | Some url \<Rightarrow> (if url = [] then ''https://rpc.ankr.com/eth'' else url))"

definition fallbackUrls :: "int \<Rightarrow> string list" where
  "fallbackUrls chain =
     (if chain = 1 then
        [''https://rpc.ankr.com/eth'', ''https://eth.llamarpc.com'',
         ''https://ethereum.publicnode.com'', ''https://1rpc.io/eth'']
      else if chain = 5 then
        [''https://rpc.ankr.com/eth_goerli'',
         ''https://goerli.infura.io/v3/9aa3d95b3bc440fa88ea12eaa4456161'']
      else if chain = 11155111 then
        [''https://rpc.sepolia.org'',
         ''https://sepolia.infura.io/v3/9aa3d95b3bc440fa88ea12eaa4456161'']
      else [])"

definition pushIfNew :: "string list \<Rightarrow> string \<Rightarrow> string list" where
  \<comment> \<open>\<open>if (!rpcUrls.includes(url)) rpcUrls.push(url)\<close>\<close>
  "pushIfNew rpcUrls url = (if url \<in> set rpcUrls then rpcUrls else rpcUrls @ [url])"

definition lastSuccessful :: "world \<Rightarrow> int \<Rightarrow> string list" where
  \<comment> \<open>the recorded endpoint of the chain, when there is one and it is a non-empty string\<close>
  "lastSuccessful w chain =
     (case lastSuccessfulRpcByChain w chain of
        None \<Rightarrow> []
      | Some url \<Rightarrow> (if url = [] then [] else [url]))"

definition candidateUrls :: "world \<Rightarrow> int \<Rightarrow> string list" where
  "candidateUrls w chain =
     foldl pushIfNew (pushIfNew (lastSuccessful w chain) (getRpcUrl chain)) (fallbackUrls chain)"

text \<open>
  The loop over \<open>rpcUrls\<close>: the probe is \<open>provider.getBlockNumber()\<close> under a timeout of
  5000 ms; the first endpoint that answers is recorded and returned.
\<close>

fun tryUrls :: "env \<Rightarrow> world \<Rightarrow> int \<Rightarrow> string list \<Rightarrow> (error + string) \<times> world" where
  "tryUrls en w chain [] = (Inl AllEndpointsFailed, w)"
| "tryUrls en w chain (url # rest) =
     (case remote (GetBlockNumber url) (\<lambda>k. rpc_getBlockNumber en k url) w of
        (Inr _, w') \<Rightarrow>
          (Inr url,
           w'\<lparr>lastSuccessfulRpcByChain := (lastSuccessfulRpcByChain w')(chain \<mapsto> url)\<rparr>)
      | (Inl _, w') \<Rightarrow> tryUrls en w' chain rest)"

definition tryConnectToNetwork :: "env \<Rightarrow> world \<Rightarrow> int \<Rightarrow> (error + string) \<times> world" where
  "tryConnectToNetwork en w chain = tryUrls en w chain (candidateUrls w chain)"

section \<open>BlockResolver\<close>

text \<open>
  The number and the timestamp of a block are JavaScript numbers that hold integers;
  the model keeps them as \<open>int\<close>. This is exact as long as every value stays below
  \<open>2 ^ 53\<close> in magnitude, where the additions, subtractions and multiplications of
  the source do not round, and below \<open>10 ^ 21\<close> for \<open>number_toString\<close>, from where a
  template literal prints a number in exponent form. Beyond these bounds the model
  differs from the source.
\<close>

definition number_toString :: "int \<Rightarrow> string" where
  \<comment> \<open>an integer-valued \<open>number\<close> below \<open>10 ^ 21\<close> in a template literal\<close>
  "number_toString i = BigNumber_toString i"

definition SECONDS_PER_BLOCK :: int where
  "SECONDS_PER_BLOCK = 13"

text \<open>
  The retry loop, with the number of attempts left. The attempt number only selects the
  timeout (10000 ms for the first attempt, 15000 ms after) and the log line.
\<close>

fun fetchAttempts :: "env \<Rightarrow> world \<Rightarrow> string \<Rightarrow> int \<Rightarrow> nat \<Rightarrow> Block option \<times> world" where
  "fetchAttempts en w provider blockNumber 0 = (None, w)"
| "fetchAttempts en w provider blockNumber (Suc left) =
     (case remote (GetBlock provider blockNumber) (\<lambda>k. rpc_getBlock en k provider blockNumber) w of
        (Inr block, w') \<Rightarrow>
          (Some block, w'\<lparr>blockCache := (blockCache w')(blockNumber \<mapsto> block)\<rparr>)
      | (Inl _, w') \<Rightarrow> fetchAttempts en w' provider blockNumber left)"

definition estimateTimestamp :: "env \<Rightarrow> world \<Rightarrow> string \<Rightarrow> int \<Rightarrow> int \<times> world" where
  "estimateTimestamp en w provider blockNumber =
     (case remote (GetBlockLatest provider) (\<lambda>k. rpc_getBlockLatest en k provider) w of
        (Inr currentBlock, w') \<Rightarrow>
          (let blockDifference = block_number currentBlock - blockNumber
           in (block_timestamp currentBlock - blockDifference * SECONDS_PER_BLOCK, w'))
      | (Inl _, w') \<Rightarrow>
          (case Date_now en w' of
             (now, w'') \<Rightarrow> (now div 1000 - 1000 * SECONDS_PER_BLOCK, w'')))"

definition getBlockWithRetries ::
  "env \<Rightarrow> world \<Rightarrow> string \<Rightarrow> int \<Rightarrow> nat \<Rightarrow> (error + Block) \<times> world" where
  "getBlockWithRetries en w provider blockNumber maxRetries =
     (case blockCache w blockNumber of
        Some block \<Rightarrow> (Inr block, w)
      | None \<Rightarrow>
          (case fetchAttempts en w provider blockNumber maxRetries of
             (Some block, w') \<Rightarrow> (Inr block, w')
           | (None, w') \<Rightarrow>
               (case estimateTimestamp en w' provider blockNumber of
                  (estimatedTimestamp, w'') \<Rightarrow>
                    (Inr \<lparr>block_hash = ''estimated-'' @ number_toString blockNumber,
                           block_number = blockNumber,
                           block_timestamp = estimatedTimestamp\<rparr>, w''))))"

section \<open>EventRetriever: from events to transfers\<close>

text \<open>
  \<open>Object.keys(eventsByBlock).map(Number)\<close>: the distinct block numbers in ascending order
  (the keys are array indices, which a JavaScript object enumerates in numeric order).
\<close>

definition blockNumbersOf :: "Event list \<Rightarrow> int list" where
  "blockNumbersOf events = sort (remdups (map event_blockNumber events))"

text \<open>
  A batch is resolved by \<open>Promise.allSettled\<close> over up to 20 calls of
  \<open>getBlockWithRetries\<close>, whose results are dropped. The block numbers of a batch are
  distinct, so no call of a batch reads or writes the cache entry of another; the model
  runs the calls of a batch one after the other. In the source the calls of a batch run
  concurrently: the first attempts of all of them are sent before any retry, and the
  order of the later requests depends on when the answers arrive. So the order of the
  remote calls inside a batch, and with it the answers of an environment that depend
  on the index of a call, are those of the sequential run only; nothing proved below
  about the pipeline for every environment mentions that order, and the services of
  the examples answer a block request the same way whatever its index.
\<close>

definition settleBatch :: "env \<Rightarrow> world \<Rightarrow> string \<Rightarrow> int list \<Rightarrow> world" where
  "settleBatch en w provider batch =
     foldl (\<lambda>w' blockNumber. snd (getBlockWithRetries en w' provider blockNumber 3)) w batch"

function prefetchBlocks :: "env \<Rightarrow> world \<Rightarrow> string \<Rightarrow> int list \<Rightarrow> world" where
  "prefetchBlocks en w provider blockNumbers =
     (if blockNumbers = [] then w
      else prefetchBlocks en (settleBatch en w provider (take 20 blockNumbers)) provider
             (drop 20 blockNumbers))"
  by pat_completeness auto
termination
  by (relation "measure (\<lambda>(en, w, provider, blockNumbers). length blockNumbers)") auto

declare prefetchBlocks.simps [simp del]

fun convertEvents ::
  "env \<Rightarrow> world \<Rightarrow> string \<Rightarrow> TokenInfo \<Rightarrow> Event list \<Rightarrow> TokenTransfer list \<times> world" where
  "convertEvents en w provider info [] = ([], w)"
| "convertEvents en w provider info (event # rest) =
     (case event_args event of
        None \<Rightarrow> convertEvents en w provider info rest
      | Some (sender, recipient, amount) \<Rightarrow>
          (case getBlockWithRetries en w provider (event_blockNumber event) 3 of
             (Inl _, w') \<Rightarrow> convertEvents en w' provider info rest
           | (Inr block, w') \<Rightarrow>
               (case convertEvents en w' provider info rest of
                  (transfers, w'') \<Rightarrow>
                    (\<lparr>transactionHash = event_transactionHash event,
                      from_address = sender,
                      to_address = recipient,
                      value_string = BigNumber_toString amount,
                      timestamp = block_timestamp block,
                      isLargeTransferFlag =
                        isLargeTransferCheck (BigNumber_toString amount) (totalSupply info)\<rparr>
                     # transfers, w''))))"

definition processTransferEvents ::
  "env \<Rightarrow> world \<Rightarrow> string \<Rightarrow> Event list \<Rightarrow> TokenInfo \<Rightarrow> (error + TokenTransfer list) \<times> world" where
  "processTransferEvents en w provider events info =
     (if events = [] then (Inr [], w)
      else
        (case convertEvents en (prefetchBlocks en w provider (blockNumbersOf events))
                provider info events of
           (transfers, w') \<Rightarrow> (Inr transfers, w')))"


section \<open>Orchestrator\<close>

subsection \<open>Fetching the token descriptor\<close>

text \<open>
  A call of a contract method under \<open>callWithTimeout\<close>; on failure the default stays.
\<close>

definition fieldOrDefault :: "'a \<Rightarrow> (error + 'a) \<times> world \<Rightarrow> 'a \<times> world" where
  "fieldOrDefault dflt r = (case r of (Inl _, w) \<Rightarrow> (dflt, w) | (Inr v, w) \<Rightarrow> (v, w))"

definition readFields :: "env \<Rightarrow> world \<Rightarrow> string \<Rightarrow> string \<Rightarrow> int \<Rightarrow> TokenInfo \<times> world" where
  "readFields en w tokenAddress provider chain =
     (case fieldOrDefault ''Unknown Token''
             (remote (CallName provider tokenAddress) (\<lambda>k. rpc_name en k provider tokenAddress) w) of
        (tokenName, w1) \<Rightarrow>
     (case fieldOrDefault ''???''
             (remote (CallSymbol provider tokenAddress) (\<lambda>k. rpc_symbol en k provider tokenAddress) w1) of
        (tokenSymbol, w2) \<Rightarrow>
     (case fieldOrDefault 18
             (remote (CallDecimals provider tokenAddress) (\<lambda>k. rpc_decimals en k provider tokenAddress) w2) of
        (tokenDecimals, w3) \<Rightarrow>
     (case fieldOrDefault ''0''
             (case remote (CallTotalSupply provider tokenAddress)
                     (\<lambda>k. rpc_totalSupply en k provider tokenAddress) w3 of
                (r, w') \<Rightarrow> (map_sum id BigNumber_toString r, w')) of
        (supply, w4) \<Rightarrow>
          (\<lparr>address = tokenAddress, name = tokenName, symbol = tokenSymbol,
            decimals = tokenDecimals,
            totalSupply = supply,
            isERC20Compliant = (tokenName \<noteq> [] \<and> tokenSymbol \<noteq> [] \<and> supply \<noteq> []),
            chainId = chain\<rparr>, w4)))))"

definition getTokenInfo :: "env \<Rightarrow> world \<Rightarrow> string \<Rightarrow> string \<Rightarrow> (error + TokenInfo) \<times> world" where
  "getTokenInfo en w tokenAddress provider =
     (if \<not> isAddress en tokenAddress then (Inl GetTokenInfoError, w)
      else
        (case remote (GetNetwork provider) (\<lambda>k. rpc_getNetwork en k provider) w of
           (Inl _, w1) \<Rightarrow> (Inl GetTokenInfoError, w1)
         | (Inr chain, w1) \<Rightarrow>
             (case remote (GetCode provider tokenAddress)
                     (\<lambda>k. rpc_getCode en k provider tokenAddress) w1 of
                (Inl _, w2) \<Rightarrow> (Inl GetTokenInfoError, w2)
              | (Inr code, w2) \<Rightarrow>
                  (if code = ''0x'' then (Inl GetTokenInfoError, w2)
                   else
                     (case readFields en w2 tokenAddress provider chain of
                        (info, w3) \<Rightarrow> (Inr info, w3))))))"

subsection \<open>Connecting\<close>

text \<open>
  The connection loop of \<open>fetchTokenData\<close>, with the number of attempts left
  (\<open>maxAttempts\<close> is 3). Between two attempts the source waits 1000 ms.
\<close>

fun connectAttempts :: "env \<Rightarrow> world \<Rightarrow> int \<Rightarrow> nat \<Rightarrow> (error + string) \<times> world" where
  "connectAttempts en w chain 0 = (Inl NoConnection, w)"
| "connectAttempts en w chain (Suc left) =
     (case tryConnectToNetwork en w chain of
        (Inr provider, w') \<Rightarrow> (Inr provider, w')
      | (Inl _, w') \<Rightarrow>
          (if left = 0 then (Inl ConnectFailed, w') else connectAttempts en w' chain left))"

definition fetchDescriptor :: "env \<Rightarrow> world \<Rightarrow> string \<Rightarrow> string \<Rightarrow> (error + TokenInfo) \<times> world" where
  \<comment> \<open>\<open>withTimeout(getTokenInfo(...), 15000, ...)\<close> and the \<open>catch\<close> around it\<close>
  "fetchDescriptor en w tokenAddress provider =
     (case getTokenInfo en w tokenAddress provider of
        (r, w') \<Rightarrow>
          (if tokenInfoTimeout en (length (calls w)) then (Inl TokenInfoFailed, w')
           else (case r of Inl _ \<Rightarrow> (Inl TokenInfoFailed, w') | Inr info \<Rightarrow> (Inr info, w'))))"

subsection \<open>Market data\<close>

definition computeMarketData :: "TokenInfo \<Rightarrow> jsnum option \<Rightarrow> TokenMarketData option" where
  "computeMarketData info priceUsd =
     (case priceUsd of
        None \<Rightarrow> None
      | Some p \<Rightarrow>
          (if fgt p (Fin 0) then
             (let cap = calculateMarketCap (totalSupply info) (decimals info) p;
                  dilutedCap = calculateFullyDilutedCap (totalSupply info) (decimals info) p None;
                  d = calculateMarketCapDifference cap dilutedCap
              in Some \<lparr>price = p, marketCap = cap, fullyDilutedCap = Some dilutedCap,
                       marketCapDifference = Some (difference d),
                       marketCapDifferencePercent = Some (percentDifference d),
                       offMarketSalesAbove = None, offMarketSalesBelow = None,
                       offMarketSalesPercentage = None\<rparr>)
           else None))"

subsection \<open>Determining the range and scanning it\<close>

definition currentBlockNumber :: "env \<Rightarrow> world \<Rightarrow> string \<Rightarrow> (error + int) \<times> world" where
  \<comment> \<open>\<open>provider.getBlockNumber()\<close> under a timeout of 5000 ms, and the \<open>catch\<close> around it\<close>
  "currentBlockNumber en w provider =
     (case remote (GetBlockNumber provider) (\<lambda>k. rpc_getBlockNumber en k provider) w of
        (Inl _, w') \<Rightarrow> (Inl CurrentBlockFailed, w')
      | (Inr n, w') \<Rightarrow> (Inr n, w'))"

definition blocksPerDay :: int where
  "blocksPerDay = 6500"

definition daysToLookBack :: int where
  "daysToLookBack = 30"

definition blockRange :: int where
  "blockRange = blocksPerDay * daysToLookBack"

definition chunkSize :: int where
  "chunkSize = 10000"

text \<open>
  One turn of the chunk loop: the query of the chunk under a timeout of 20000 ms. The
  result is the accumulator and whether the loop breaks.
\<close>

definition queryChunk ::
  "env \<Rightarrow> world \<Rightarrow> string \<Rightarrow> string \<Rightarrow> int \<Rightarrow> int \<Rightarrow> Event list
     \<Rightarrow> (Event list \<times> bool) \<times> world" where
  "queryChunk en w provider tokenAddress chunkStart chunkEnd allEvents =
     (case remote (QueryFilter provider tokenAddress chunkStart chunkEnd)
             (\<lambda>k. rpc_queryFilter en k provider tokenAddress chunkStart chunkEnd) w of
        (Inr events, w') \<Rightarrow> ((allEvents @ events, 2000 < length (allEvents @ events)), w')
      | (Inl _, w') \<Rightarrow> ((allEvents, False), w'))"

function scanChunks ::
  "env \<Rightarrow> world \<Rightarrow> string \<Rightarrow> string \<Rightarrow> int \<Rightarrow> int \<Rightarrow> Event list \<Rightarrow> Event list \<times> world" where
  "scanChunks en w provider tokenAddress currentBlock chunkStart allEvents =
     (if chunkStart < currentBlock then
        (case queryChunk en w provider tokenAddress chunkStart
                (min currentBlock (chunkStart + chunkSize - 1)) allEvents of
           ((allEvents', stop), w') \<Rightarrow>
             (if stop then (allEvents', w')
              else scanChunks en w' provider tokenAddress currentBlock
                     (chunkStart + chunkSize) allEvents'))
      else (allEvents, w))"
  by pat_completeness auto
termination
  by (relation "measure (\<lambda>(en, w, provider, tokenAddress, currentBlock, chunkStart, allEvents).
                  nat (currentBlock - chunkStart))")
     (auto simp: chunkSize_def)

declare scanChunks.simps [simp del]

subsection \<open>The pipeline\<close>

definition retrieveTransfers ::
  "env \<Rightarrow> world \<Rightarrow> string \<Rightarrow> string \<Rightarrow> TokenInfo \<Rightarrow> int
     \<Rightarrow> (TokenTransfer list \<times> TokenTransfer list) \<times> world" where
  \<comment> \<open>the \<open>try\<close> block that fills \<open>recentTransfers\<close> and \<open>largeTransfers\<close>\<close>
  "retrieveTransfers en w provider tokenAddress info currentBlock =
     (let fromBlock = max 0 (currentBlock - blockRange)
      in case scanChunks en w provider tokenAddress currentBlock fromBlock [] of
           (allEvents, w1) \<Rightarrow>
             (if allEvents \<noteq> [] then
                (case processTransferEvents en w1 provider allEvents info of
                   (Inl _, w2) \<Rightarrow> (([], []), w2)
                 | (Inr transfers, w2) \<Rightarrow>
                     (let processedTransfers = sort_key (\<lambda>t. - timestamp t) transfers
                      in ((processedTransfers, filter isLargeTransferFlag processedTransfers), w2)))
              else (([], []), w1)))"

definition addOffMarketSales ::
  "env \<Rightarrow> world \<Rightarrow> TokenMarketData option \<Rightarrow> jsnum option \<Rightarrow> TokenTransfer list \<Rightarrow> TokenInfo
     \<Rightarrow> TokenMarketData option \<times> world" where
  "addOffMarketSales en w md priceUsd large info =
     (case md of
        None \<Rightarrow> (None, w)
      | Some m \<Rightarrow>
          (case priceUsd of
             None \<Rightarrow> (md, w)
           | Some p \<Rightarrow>
               (if p \<noteq> Fin 0 \<and> p \<noteq> NaN \<and> fgt p (Fin 0) \<and> large \<noteq> [] then
                  (case analyzeOffMarketSales en w large info p of
                     (Inl _, w') \<Rightarrow> (md, w')
                   | (Inr r, w') \<Rightarrow>
                       (Some (m\<lparr>offMarketSalesAbove := Some (abovePrice r),
                                offMarketSalesBelow := Some (belowPrice r),
                                offMarketSalesPercentage := Some (percentage r)\<rparr>), w'))
                else (md, w))))"

definition fetchTokenData ::
  "env \<Rightarrow> world \<Rightarrow> string \<Rightarrow> int \<Rightarrow> jsnum option \<Rightarrow> (error + TokenMetrics) \<times> world" where
  "fetchTokenData en w tokenAddress chain priceUsd =
     (case connectAttempts en w chain 3 of
        (Inl e, w1) \<Rightarrow> (Inl e, w1)
      | (Inr provider, w1) \<Rightarrow>
          (case fetchDescriptor en w1 tokenAddress provider of
             (Inl e, w2) \<Rightarrow> (Inl e, w2)
           | (Inr info, w2) \<Rightarrow>
               (let md = computeMarketData info priceUsd
                in case currentBlockNumber en w2 provider of
                     (Inl e, w3) \<Rightarrow> (Inl e, w3)
                   | (Inr currentBlock, w3) \<Rightarrow>
                       (case retrieveTransfers en w3 provider tokenAddress info currentBlock of
                          ((recent, large), w4) \<Rightarrow>
                            (case addOffMarketSales en w4 md priceUsd large info of
                               (md', w5) \<Rightarrow>
                                 (Inr \<lparr>tokenInfo = info\<lparr>chainId := chain\<rparr>,
                                        marketData = md',
                                        recentTransfers = recent,
                                        largeTransfers = large\<rparr>, w5))))))"


section \<open>The chunks of the scan loop\<close>

text \<open>
  The header of the chunk loop alone: the chunks \<open>(chunkStart, chunkEnd)\<close> that the loop
  of \<open>scanChunks\<close> visits when it never breaks.
\<close>

function chunkBounds :: "int \<Rightarrow> int \<Rightarrow> (int \<times> int) list" where
  "chunkBounds currentBlock chunkStart =
     (if chunkStart < currentBlock then
        (chunkStart, min currentBlock (chunkStart + chunkSize - 1))
          # chunkBounds currentBlock (chunkStart + chunkSize)
      else [])"
  by pat_completeness auto
termination
  by (relation "measure (\<lambda>(currentBlock, chunkStart). nat (currentBlock - chunkStart))")
     (auto simp: chunkSize_def)

declare chunkBounds.simps [simp del]

section \<open>The specification's candidate order\<close>

text \<open>
  The specification's words for the candidate list: the last-successful endpoint if any,
  the primary endpoint, the fallbacks, "with duplicates removed while preserving
  first-seen order". \<open>removeDuplicates\<close> keeps the first copy of every element and drops
  the later ones.
\<close>

fun removeDuplicates :: "'a list \<Rightarrow> 'a list" where
  "removeDuplicates [] = []"
| "removeDuplicates (x # xs) = x # removeDuplicates (removeAll x xs)"

section \<open>The classifications of a run\<close>

text \<open>
  What \<open>isBelowMarketPrice\<close> answers for the transfers of a list when it is called on
  them in order, each call in the state that the call before has left (a call may read
  the clock and draw a random number). This is the sequence of classifications that the
  loop of \<open>analyzeOffMarketSales\<close> sees.
\<close>

fun belowOutcomes :: "env \<Rightarrow> world \<Rightarrow> TokenTransfer list \<Rightarrow> bool list" where
  "belowOutcomes en w [] = []"
| "belowOutcomes en w (transfer # rest) =
     (case isBelowMarketPrice en w transfer of
        (Inl e, w') \<Rightarrow> []
      | (Inr isBelowPrice, w') \<Rightarrow> isBelowPrice # belowOutcomes en w' rest)"

section \<open>Example environments\<close>

text \<open>A service that answers nothing, and the state of a fresh process.\<close>

definition env_silent :: env where
  "env_silent =
     \<lparr>isAddress = (\<lambda>_. True),
      rpc_getBlockNumber = (\<lambda>_ _. None),
      rpc_getBlock = (\<lambda>_ _ _. None),
      rpc_getBlockLatest = (\<lambda>_ _. None),
      rpc_getNetwork = (\<lambda>_ _. None),
      rpc_getCode = (\<lambda>_ _ _. None),
      rpc_name = (\<lambda>_ _ _. None),
      rpc_symbol = (\<lambda>_ _ _. None),
      rpc_decimals = (\<lambda>_ _ _. None),
      rpc_totalSupply = (\<lambda>_ _ _. None),
      rpc_queryFilter = (\<lambda>_ _ _ _ _. None),
      tokenInfoTimeout = (\<lambda>_. False),
      date_now = (\<lambda>_. 1700000000000),
      math_random = (\<lambda>_. 0)\<rparr>"

definition w_init :: world where
  "w_init = \<lparr>calls = [], blockCache = Map.empty, lastSuccessfulRpcByChain = Map.empty,
             clock_reads = 0, random_draws = 0\<rparr>"

text \<open>
  On chain 1 the candidates start with the primary endpoint and the first two fallbacks.
  Only the third of them answers.
\<close>

definition env_abc :: env where
  "env_abc = env_silent\<lparr>rpc_getBlockNumber :=
     (\<lambda>k url. if url = ''https://eth.llamarpc.com'' then Some 19000000 else None)\<rparr>"

text \<open>
  A process whose last successful endpoint on chain 1 is the second fallback of the
  chain, and a service on which only the last fallback of chain 1 answers.
\<close>

definition w_recorded :: world where
  "w_recorded = w_init\<lparr>lastSuccessfulRpcByChain := [1 \<mapsto> ''https://eth.llamarpc.com'']\<rparr>"

definition env_last :: env where
  "env_last = env_silent\<lparr>rpc_getBlockNumber :=
     (\<lambda>k url. if url = ''https://1rpc.io/eth'' then Some 19000000 else None)\<rparr>"

text \<open>
  A service whose first four answers to \<open>getBlock\<close> are failures and which answers from
  then on, with a head block at number 200; and a service that always answers.
\<close>

definition env_flaky :: env where
  "env_flaky = env_silent\<lparr>
     rpc_getBlock := (\<lambda>k provider blockNumber.
        if k < 4 then None
        else Some \<lparr>block_hash = ''0xb10c'', block_number = blockNumber,
                   block_timestamp = 1699999990\<rparr>),
     rpc_getBlockLatest := (\<lambda>k provider.
        Some \<lparr>block_hash = ''0x4ead'', block_number = 200, block_timestamp = 1700001300\<rparr>)\<rparr>"


text \<open>
  A service whose log query answers 2000 events for the chunk that starts at block 0 and
  one event for every other chunk.
\<close>

definition ev0 :: Event where
  "ev0 = \<lparr>event_transactionHash = ''0x01'', event_blockNumber = 1,
           event_args = Some (''0xaa'', ''0xbb'', 10)\<rparr>"

definition env_cap :: env where
  "env_cap = env_silent\<lparr>rpc_queryFilter :=
     (\<lambda>k provider tokenAddress chunkStart chunkEnd.
        Some (if chunkStart = 0 then replicate 2000 ev0 else [ev0]))\<rparr>"

text \<open>
  A service that answers every request: a token with a supply of 1000 base units, the head
  at block 5, and two transfer events, of 10 units in block 3 and of 1 unit in block 4.
  \<open>env_nohead\<close> is the same service, except that \<open>getBlockNumber\<close> answers the first
  remote call only.
\<close>

definition evA :: Event where
  "evA = \<lparr>event_transactionHash = ''0x0a'', event_blockNumber = 3,
           event_args = Some (''0xaa'', ''0xbb'', 10)\<rparr>"

definition evB :: Event where
  "evB = \<lparr>event_transactionHash = ''0x0b'', event_blockNumber = 4,
           event_args = Some (''0xbb'', ''0xcc'', 1)\<rparr>"

definition env_demo :: env where
  "env_demo = env_silent\<lparr>
     rpc_getBlockNumber := (\<lambda>k url. Some 5),
     rpc_getBlock := (\<lambda>k provider blockNumber.
        Some \<lparr>block_hash = ''0xb10c'', block_number = blockNumber,
              block_timestamp = 1700000000 + 13 * blockNumber\<rparr>),
     rpc_getNetwork := (\<lambda>k provider. Some 1),
     rpc_getCode := (\<lambda>k provider tokenAddress. Some ''0x6080''),
     rpc_name := (\<lambda>k provider tokenAddress. Some ''Demo''),
     rpc_symbol := (\<lambda>k provider tokenAddress. Some ''DMO''),
     rpc_decimals := (\<lambda>k provider tokenAddress. Some 18),
     rpc_totalSupply := (\<lambda>k provider tokenAddress. Some 1000),
     rpc_queryFilter := (\<lambda>k provider tokenAddress chunkStart chunkEnd. Some [evA, evB])\<rparr>"

definition env_nohead :: env where
  "env_nohead = env_demo\<lparr>rpc_getBlockNumber := (\<lambda>k url. if k = 0 then Some 5 else None)\<rparr>"

definition info_demo :: TokenInfo where
  "info_demo = \<lparr>address = ''0x70ce'', name = ''Demo'', symbol = ''DMO'', decimals = 18,
                 totalSupply = ''1000'', isERC20Compliant = True, chainId = 1\<rparr>"

definition transferA :: TokenTransfer where
  "transferA = \<lparr>transactionHash = ''0x0a'', from_address = ''0xaa'', to_address = ''0xbb'',
                 value_string = ''10'', timestamp = 1700000039, isLargeTransferFlag = True\<rparr>"

definition transferB :: TokenTransfer where
  "transferB = \<lparr>transactionHash = ''0x0b'', from_address = ''0xbb'', to_address = ''0xcc'',
                 value_string = ''1'', timestamp = 1700000052, isLargeTransferFlag = False\<rparr>"

definition metrics_demo :: TokenMetrics where
  "metrics_demo = \<lparr>tokenInfo = info_demo, marketData = None,
                    recentTransfers = [transferB, transferA], largeTransfers = [transferA]\<rparr>"

text \<open>
  Three large transfers of 0.1, 0.2 and 0.3 tokens (18 decimals). The recipient of the
  first starts with \<open>0x00\<close>, so that it counts as below the market price; for the other
  two \<open>Math.random()\<close> decides, and under \<open>env_silent\<close> it returns 0 (above the price).
\<close>

definition transfer01 :: TokenTransfer where
  "transfer01 = \<lparr>transactionHash = ''0x01'', from_address = ''0xaa'', to_address = ''0x00aa'',
                  value_string = ''100000000000000000'', timestamp = 1700000000,
                  isLargeTransferFlag = True\<rparr>"

definition transfer02 :: TokenTransfer where
  "transfer02 = \<lparr>transactionHash = ''0x02'', from_address = ''0xaa'', to_address = ''0xbb'',
                  value_string = ''200000000000000000'', timestamp = 1700000000,
                  isLargeTransferFlag = True\<rparr>"

definition transfer03 :: TokenTransfer where
  "transfer03 = \<lparr>transactionHash = ''0x03'', from_address = ''0xaa'', to_address = ''0xcc'',
                  value_string = ''300000000000000000'', timestamp = 1700000000,
                  isLargeTransferFlag = True\<rparr>"

section \<open>Properties of the number model\<close>

text \<open>
  \<open>exponent2\<close> is the binary exponent of a positive rational, and a finite result of
  \<open>round_double\<close> differs from the exact value by at most half a unit in the last place.
\<close>

lemma pow2_powi: "pow2 k = 2 powi k"
  by (simp add: pow2_def power_int_def field_simps)

lemma bit_length_nonneg: "0 \<le> bit_length n"
  by (induction n rule: bit_length.induct) (subst bit_length.simps, simp)

lemma bit_length_bounds:
  "0 < n \<Longrightarrow> pow2 (bit_length n - 1) \<le> of_int n \<and> of_int n < pow2 (bit_length n)"
proof (induction n rule: bit_length.induct)
  case (1 n)
  show ?case
  proof (cases "n = 1")
    case True
    then show ?thesis
      by (subst bit_length.simps, subst bit_length.simps, subst bit_length.simps,
          subst bit_length.simps) (simp add: pow2_def)
  next
    case False
    with "1.prems" have pos: "0 < n div 2" by simp
    from "1.prems" have nle: "\<not> n \<le> 0" by simp
    from "1.IH" [OF nle pos] have
      lo: "pow2 (bit_length (n div 2) - 1) \<le> of_int (n div 2)"
      and hi: "of_int (n div 2) < pow2 (bit_length (n div 2))" by simp_all
    have bl: "bit_length n = 1 + bit_length (n div 2)"
      using nle by (subst bit_length.simps) simp
    have blpos: "0 < bit_length (n div 2)"
      using pos bit_length_nonneg [of "n div 2 div 2"] by (subst bit_length.simps) simp
    have hi': "n div 2 < 2 ^ nat (bit_length (n div 2))"
    proof -
      have "(of_int (n div 2) :: rat) < of_int (2 ^ nat (bit_length (n div 2)))"
        using hi blpos by (simp add: pow2_def)
      then show ?thesis by (simp only: of_int_less_iff)
    qed
    have lo': "2 ^ nat (bit_length (n div 2) - 1) \<le> n div 2"
    proof -
      have "(of_int (2 ^ nat (bit_length (n div 2) - 1)) :: rat) \<le> of_int (n div 2)"
        using lo blpos by (simp add: pow2_def)
      then show ?thesis by (simp only: of_int_le_iff)
    qed
    have "(2::int) ^ nat (bit_length n - 1) = 2 ^ nat (bit_length (n div 2))"
      using bl by simp
    also have "\<dots> = 2 * 2 ^ nat (bit_length (n div 2) - 1)"
      using blpos by (metis Suc_nat_eq_nat_zadd1 add.commute diff_add_cancel diff_ge_0_iff_ge
          int_one_le_iff_zero_less power_Suc)
    also have "\<dots> \<le> 2 * (n div 2)" using lo' by simp
    also have "\<dots> \<le> n" by simp
    finally have L: "(2::int) ^ nat (bit_length n - 1) \<le> n" .
    have "n < 2 * (n div 2) + 2" by simp
    also have "\<dots> \<le> 2 * 2 ^ nat (bit_length (n div 2))" using hi' by simp
    also have "\<dots> = 2 ^ nat (bit_length n)"
      using bl blpos by (simp add: nat_add_distrib)
    finally have H: "n < 2 ^ nat (bit_length n)" .
    have blp: "0 < bit_length n" using bl blpos by simp
    have "(of_int (2 ^ nat (bit_length n - 1)) :: rat) \<le> of_int n"
      using L by (simp only: of_int_le_iff)
    moreover have "(of_int n :: rat) < of_int (2 ^ nat (bit_length n))"
      using H by (simp only: of_int_less_iff)
    ultimately show ?thesis using blp by (simp add: pow2_def)
  qed
qed

lemma exponent2_correct:
  assumes "0 < x"
  shows "pow2 (exponent2 x) \<le> x \<and> x < pow2 (exponent2 x + 1)"
proof -
  obtain p q where pq: "quotient_of x = (p, q)" by (cases "quotient_of x")
  then have q: "0 < q" by (rule quotient_of_denom_pos)
  have x: "x = of_int p / of_int q" using pq by (rule quotient_of_div)
  with assms q have p: "0 < p" by (simp add: zero_less_divide_iff)
  define d where "d = bit_length p - bit_length q"
  note bp = bit_length_bounds [OF p] and bq = bit_length_bounds [OF q]
  have qpos: "(0::rat) < of_int q" using q by simp
  have lo: "pow2 (d - 1) \<le> x"
  proof -
    have "pow2 (d - 1) * of_int q \<le> pow2 (d - 1) * pow2 (bit_length q)"
      using bq by (simp add: pow2_powi mult_left_mono less_imp_le)
    also have "\<dots> = pow2 (bit_length p - 1)"
      by (simp add: pow2_powi d_def power_int_add [symmetric])
    also have "\<dots> \<le> of_int p" using bp by simp
    finally show ?thesis using qpos by (simp add: x pos_le_divide_eq)
  qed
  have hi: "x < pow2 (d + 1)"
  proof -
    have "of_int p < pow2 (bit_length p)" using bp by simp
    also have "\<dots> = pow2 (d + 1) * pow2 (bit_length q - 1)"
      by (simp add: pow2_powi d_def power_int_add [symmetric])
    also have "\<dots> \<le> pow2 (d + 1) * of_int q"
      using bq by (simp add: pow2_powi mult_left_mono)
    finally show ?thesis using qpos by (simp add: x pos_divide_less_eq)
  qed
  have e: "exponent2 x = (if pow2 d \<le> x then d else d - 1)"
    by (simp add: exponent2_def pq d_def Let_def)
  show ?thesis
  proof (cases "pow2 d \<le> x")
    case True
    with e hi show ?thesis by simp
  next
    case False
    with e lo show ?thesis by simp
  qed
qed

lemma pow2_pos: "0 < pow2 k"
  by (simp add: pow2_powi)

lemma round_half_even_near: "\<bar>of_int (round_half_even y) - y\<bar> \<le> 1 / 2"
proof -
  have "of_int \<lfloor>y\<rfloor> \<le> y" "y < of_int \<lfloor>y\<rfloor> + 1" by linarith+
  then show ?thesis
    by (auto simp: round_half_even_def Let_def abs_le_iff)
qed

lemma round_double_error:
  assumes "round_double x = Fin y"
  shows "\<bar>y - x\<bar> \<le> pow2 (max (exponent2 \<bar>x\<bar> - 52) (- 1074)) / 2"
proof (cases "x = 0")
  case True
  with assms show ?thesis using pow2_pos [of "max (exponent2 \<bar>x\<bar> - 52) (- 1074)"]
    by (simp add: round_double_def)
next
  case False
  define q where "q = max (exponent2 \<bar>x\<bar> - 52) (- 1074)"
  define m where "m = round_half_even (\<bar>x\<bar> / pow2 q)"
  from assms False have y: "y = sgn x * (of_int m * pow2 q)"
    by (simp add: round_double_def Let_def q_def m_def split: if_splits)
  have "\<bar>y - x\<bar> = \<bar>sgn x * (of_int m * pow2 q) - sgn x * \<bar>x\<bar>\<bar>"
    by (simp add: y sgn_mult_abs)
  also have "\<dots> = \<bar>sgn x\<bar> * \<bar>of_int m * pow2 q - \<bar>x\<bar>\<bar>"
    by (simp only: right_diff_distrib [symmetric] abs_mult)
  also have "\<dots> = \<bar>of_int m * pow2 q - \<bar>x\<bar>\<bar>"
    using False by (simp add: abs_sgn_eq)
  also have "\<dots> = \<bar>(of_int m - \<bar>x\<bar> / pow2 q) * pow2 q\<bar>"
  proof -
    have "of_int m * pow2 q - \<bar>x\<bar> = (of_int m - \<bar>x\<bar> / pow2 q) * pow2 q"
      using pow2_pos [of q] by (simp add: left_diff_distrib)
    then show ?thesis by simp
  qed
  also have "\<dots> = \<bar>of_int m - \<bar>x\<bar> / pow2 q\<bar> * pow2 q"
    using pow2_pos [of q] by (simp add: abs_mult)
  also have "\<dots> \<le> (1 / 2) * pow2 q"
    using round_half_even_near [of "\<bar>x\<bar> / pow2 q"] pow2_pos [of q]
    by (intro mult_right_mono) (simp_all add: m_def)
  finally show ?thesis by (simp add: q_def)
qed

lemma round_double_examples:
  "round_double (1 / 10) = Fin (3602879701896397 / 36028797018963968)"
  "round_double 9007199254740993 = Fin 9007199254740992"
  "round_double 9007199254740995 = Fin 9007199254740996"
  "round_double (- (1 / 3)) = Fin (- (6004799503160661 / 18014398509481984))"
  by code_simp+

text \<open>
  A positive rational below \<open>2 ^ 1022\<close> rounds to a finite number, a rational that is not
  positive never rounds to a positive number; and the comparison that the classifier of
  the pipeline makes, \<open>n / 100 >= 0.005\<close> for an integer \<open>n\<close> of at most 53 bits,
  holds exactly when \<open>n\<close> is at least 1.
\<close>

lemma pow2_mono: "a \<le> b \<Longrightarrow> pow2 a \<le> pow2 b"
  by (simp add: pow2_powi power_int_increasing)

lemma pow2_less_cancel: "pow2 a < pow2 b \<Longrightarrow> a < b"
  using pow2_mono [of b a] by (cases "a < b") auto

lemma pow2_add: "pow2 (a + b) = pow2 a * pow2 b"
  by (simp add: pow2_powi power_int_add)

lemma bit_length_le_54: "m \<le> 9007199254740992 \<Longrightarrow> bit_length m \<le> 54"
proof (cases "0 < m")
  case False
  then show ?thesis by (subst bit_length.simps) simp
next
  case True
  assume "m \<le> 9007199254740992"
  then have "(of_int m :: rat) \<le> of_int 9007199254740992" by (simp only: of_int_le_iff)
  also have "\<dots> < pow2 54" by (simp add: pow2_def)
  finally have "pow2 (bit_length m - 1) < pow2 54"
    using bit_length_bounds [OF True] by simp
  from pow2_less_cancel [OF this] show ?thesis by simp
qed

lemma round_half_even_le: "round_half_even y \<le> \<lfloor>y\<rfloor> + 1"
  by (simp add: round_half_even_def Let_def)

lemma round_half_even_nonneg: "0 \<le> y \<Longrightarrow> 0 \<le> round_half_even y"
  by (simp add: round_half_even_def Let_def)

lemma round_double_finite:
  assumes pos: "0 < x" and small: "exponent2 x \<le> 1021"
  shows "\<exists>y. round_double x = Fin y"
proof -
  define e where "e = exponent2 x"
  define q where "q = max (e - 52) (- 1074)"
  define m where "m = round_half_even (x / pow2 q)"
  have "x < pow2 (e + 1)" using exponent2_correct [OF pos] by (simp add: e_def)
  also have "\<dots> = pow2 (e + 1 - q) * pow2 q" by (simp add: pow2_add [symmetric])
  also have "\<dots> \<le> pow2 53 * pow2 q"
    using pow2_mono [of "e + 1 - q" 53] pow2_pos [of q]
    by (intro mult_right_mono) (simp_all add: q_def)
  finally have "x / pow2 q < pow2 53" using pow2_pos [of q] by (simp add: pos_divide_less_eq)
  then have "x / pow2 q < of_int 9007199254740992" by (simp add: pow2_def)
  then have "\<lfloor>x / pow2 q\<rfloor> < 9007199254740992" by (simp only: floor_less_iff)
  with round_half_even_le [of "x / pow2 q"] have "m \<le> 9007199254740992"
    unfolding m_def by linarith
  from bit_length_le_54 [OF this] have "bit_length m + q \<le> 1024"
    using small by (simp add: q_def e_def)
  moreover have "round_double x =
      (if 1024 < bit_length m + q then PInf else Fin (sgn x * (of_int m * pow2 q)))"
    using pos by (simp add: round_double_def Let_def q_def m_def e_def)
  ultimately show ?thesis by simp
qed

lemma round_double_nonpos:
  assumes "x \<le> 0"
  shows "round_double x = NInf \<or> (\<exists>y\<le>0. round_double x = Fin y)"
proof (cases "x = 0")
  case True
  then show ?thesis by (simp add: round_double_def)
next
  case False
  with assms have neg: "x < 0" by simp
  define q where "q = max (exponent2 \<bar>x\<bar> - 52) (- 1074)"
  define m where "m = round_half_even (\<bar>x\<bar> / pow2 q)"
  have "0 \<le> m" using pow2_pos [of q] by (simp add: m_def round_half_even_nonneg)
  then have "sgn x * (of_int m * pow2 q) \<le> 0"
    using neg pow2_pos [of q] by (simp add: mult_nonneg_nonneg)
  moreover have "round_double x =
      (if 1024 < bit_length m + q then NInf else Fin (sgn x * (of_int m * pow2 q)))"
    using neg by (simp add: round_double_def Let_def q_def m_def)
  ultimately show ?thesis by simp
qed

lemma threshold_value:
  "round_double (5 / 1000) = Fin (5764607523034235 / 1152921504606846976)"
  by code_simp

lemma num_of_int_100: "num_of_int 100 = Fin 100"
  by code_simp

lemma percent_at_least_threshold:
  assumes "1 \<le> n" and "n < 9007199254740992"
  shows "\<exists>y. round_double (of_int n / 100) = Fin y \<and> 5764607523034235 / 1152921504606846976 \<le> y"
proof -
  define x :: rat where "x = of_int n / 100"
  define e where "e = exponent2 x"
  have lo: "1 / 100 \<le> x" using assms(1) by (simp add: x_def)
  have "(of_int n :: rat) < of_int 9007199254740992" using assms(2) by (simp only: of_int_less_iff)
  then have hi: "x < pow2 47" by (simp add: x_def pow2_def)
  have pos: "0 < x" using lo by simp
  note ec = exponent2_correct [OF pos, folded e_def]
  have "pow2 e < pow2 47" using ec hi by simp
  then have e_hi: "e < 47" by (rule pow2_less_cancel)
  have "pow2 (- 7) < pow2 (e + 1)" using ec lo by (simp add: pow2_def)
  then have e_lo: "- 7 < e + 1" by (rule pow2_less_cancel)
  from e_hi have "exponent2 x \<le> 1021" by (simp add: e_def)
  from round_double_finite [OF pos this] obtain y where y: "round_double x = Fin y" ..
  have q: "max (exponent2 \<bar>x\<bar> - 52) (- 1074) = e - 52"
    using e_lo pos by (simp add: e_def)
  from round_double_error [OF y] have "\<bar>y - x\<bar> \<le> pow2 (e - 52) / 2" by (simp only: q)
  also have "pow2 (e - 52) = pow2 e * pow2 (- 52)" using pow2_add [of e "- 52"] by simp
  also have "pow2 e * pow2 (- 52) / 2 \<le> x * pow2 (- 52) / 2"
    using ec pow2_pos [of "- 52"] by (simp add: mult_right_mono divide_right_mono)
  finally have "\<bar>y - x\<bar> \<le> x * pow2 (- 52) / 2" .
  then have "x - x * pow2 (- 52) / 2 \<le> y" by linarith
  moreover have "(1 / 100) * (1 - pow2 (- 52) / 2) \<le> x * (1 - pow2 (- 52) / 2)"
    using lo by (intro mult_right_mono) (simp_all add: pow2_def)
  moreover have "5764607523034235 / 1152921504606846976 \<le> (1 / 100) * (1 - pow2 (- 52) / 2)"
    by (simp add: pow2_def)
  ultimately have "5764607523034235 / 1152921504606846976 \<le> y"
    by (simp add: algebra_simps)
  with y show ?thesis by (auto simp: x_def)
qed

lemma percent_compare:
  assumes "\<bar>n\<bar> < 9007199254740992"
  shows "fge (fdiv (Fin (of_int n)) (num_of_int 100)) (round_double (5 / 1000)) = (1 \<le> n)"
proof (cases "1 \<le> n")
  case True
  with assms have "n < 9007199254740992" by simp
  from percent_at_least_threshold [OF True this] True show ?thesis
    unfolding threshold_value num_of_int_100 by (auto simp: fge_def)
next
  case False
  then have "(of_int n :: rat) / 100 \<le> 0" by simp
  from round_double_nonpos [OF this] False show ?thesis
    unfolding threshold_value num_of_int_100 by (auto simp: fge_def)
qed

lemma percent_compare_normal:
  "\<bar>n\<bar> < 9007199254740992 \<Longrightarrow>
   fge (fdiv (Fin (of_int n)) (num_of_int 100)) (round_double (1 / 200)) = (1 \<le> n)"
  using percent_compare [of n] by simp

text \<open>Printing a big number and parsing the string gives the number back.\<close>

lemma dec_digit_digit_char: "0 \<le> d \<Longrightarrow> d < 10 \<Longrightarrow> dec_digit (digit_char d) = Some d"
  by (simp add: dec_digit_def digit_char_def Let_def)

lemma parse_digits_append:
  "parse_digits f b acc (xs @ ys) =
     (case parse_digits f b acc xs of None \<Rightarrow> None | Some a \<Rightarrow> parse_digits f b a ys)"
  by (induction xs arbitrary: acc) (auto split: option.splits)

lemma show_digits_nonempty: "show_digits n \<noteq> []"
  by (subst show_digits.simps) simp

lemma show_digits_digits:
  "0 \<le> n \<Longrightarrow> c \<in> set (show_digits n) \<Longrightarrow> dec_digit c \<noteq> None"
proof (induction n rule: show_digits.induct)
  case (1 n)
  show ?case
  proof (cases "n < 10")
    case True
    with "1.prems" show ?thesis
      by (subst (asm) show_digits.simps) (simp add: dec_digit_digit_char)
  next
    case False
    with "1.prems" have "c \<in> set (show_digits (n div 10)) \<or> c = digit_char (n mod 10)"
      by (subst (asm) show_digits.simps) auto
    then show ?thesis
    proof
      assume "c \<in> set (show_digits (n div 10))"
      with "1.IH" [OF False] "1.prems"(1) show ?thesis by simp
    next
      assume "c = digit_char (n mod 10)"
      then show ?thesis by (simp add: dec_digit_digit_char)
    qed
  qed
qed

lemma parse_show_digits:
  "0 \<le> n \<Longrightarrow>
   parse_digits dec_digit 10 acc (show_digits n) = Some (acc * 10 ^ length (show_digits n) + n)"
proof (induction n arbitrary: acc rule: show_digits.induct)
  case (1 n)
  show ?case
  proof (cases "n < 10")
    case True
    with "1.prems" show ?thesis
      by (subst show_digits.simps, subst show_digits.simps) (simp add: dec_digit_digit_char)
  next
    case False
    have sd: "show_digits n = show_digits (n div 10) @ [digit_char (n mod 10)]"
      using False by (subst show_digits.simps) simp
    from "1.prems" have "0 \<le> n div 10" by simp
    from "1.IH" [OF False this, of acc] show ?thesis
      by (simp add: sd parse_digits_append dec_digit_digit_char algebra_simps)
  qed
qed

lemma parse_unsigned_show_digits: "0 \<le> n \<Longrightarrow> parse_unsigned (show_digits n) = Some n"
proof -
  assume n: "0 \<le> n"
  obtain c cs where s: "show_digits n = c # cs"
    using show_digits_nonempty [of n] by (cases "show_digits n") auto
  have nohex: "cs \<noteq> [] \<Longrightarrow> hd cs \<noteq> CHR ''x''"
  proof -
    assume "cs \<noteq> []"
    then have "hd cs \<in> set (show_digits n)" by (simp add: s)
    from show_digits_digits [OF n this] show ?thesis
      by (auto simp: dec_digit_def Let_def)
  qed
  have "parse_unsigned (show_digits n) = parse_digits dec_digit 10 0 (show_digits n)"
    using nohex by (auto simp: parse_unsigned_def s)
  with parse_show_digits [OF n, of 0] show ?thesis by simp
qed

lemma BigNumber_from_toString: "BigNumber_from (BigNumber_toString i) = Inr i"
proof (cases "i < 0")
  case True
  then have "parse_unsigned (show_digits (- i)) = Some (- i)"
    by (intro parse_unsigned_show_digits) simp
  with True show ?thesis
    by (simp add: BigNumber_from_def BigNumber_toString_def)
next
  case False
  then have n: "0 \<le> i" by simp
  obtain c cs where s: "show_digits i = c # cs"
    using show_digits_nonempty [of i] by (cases "show_digits i") auto
  have "c \<in> set (show_digits i)" by (simp add: s)
  from show_digits_digits [OF n this] have "c \<noteq> CHR ''-''"
    by (auto simp: dec_digit_def Let_def)
  with parse_unsigned_show_digits [OF n] False s show ?thesis
    by (simp add: BigNumber_from_def BigNumber_toString_def)
qed

section \<open>Properties of the EndpointSelector\<close>

lemma remote_calls [simp]: "calls (snd (remote c f w)) = calls w @ [c]"
  by (simp add: remote_def)

lemma foldl_pushIfNew:
  "foldl pushIfNew acc xs = acc @ removeDuplicates (filter (\<lambda>x. x \<notin> set acc) xs)"
proof (induction xs arbitrary: acc)
  case Nil
  show ?case by simp
next
  case (Cons x xs)
  show ?case
  proof (cases "x \<in> set acc")
    case True
    then show ?thesis using Cons.IH [of acc] by (simp add: pushIfNew_def)
  next
    case False
    have "removeAll x (filter (\<lambda>y. y \<notin> set acc) xs) = filter (\<lambda>y. y \<notin> set (acc @ [x])) xs"
      by (induction xs) auto
    then show ?thesis using False Cons.IH [of "acc @ [x]"] by (simp add: pushIfNew_def)
  qed
qed

lemma candidateUrls_firstSeen:
  "candidateUrls w chain =
     removeDuplicates (lastSuccessful w chain @ getRpcUrl chain # fallbackUrls chain)"
proof -
  have ls: "lastSuccessful w chain = foldl pushIfNew [] (lastSuccessful w chain)"
    by (simp add: lastSuccessful_def pushIfNew_def split: option.splits)
  have "candidateUrls w chain
      = foldl pushIfNew (lastSuccessful w chain) (getRpcUrl chain # fallbackUrls chain)"
    by (simp add: candidateUrls_def)
  also have "\<dots> = foldl pushIfNew [] (lastSuccessful w chain @ getRpcUrl chain # fallbackUrls chain)"
    using ls by (metis foldl_append)
  also have "\<dots> = removeDuplicates (lastSuccessful w chain @ getRpcUrl chain # fallbackUrls chain)"
    by (subst foldl_pushIfNew) simp
  finally show ?thesis .
qed

text \<open>
  The loop over the candidates: the probes are made in the order of the list; on success
  the endpoints before the returned one all failed, and the record of the chain is the
  returned endpoint; on failure every candidate was probed and the record is untouched.
\<close>

lemma tryUrls_spec:
  "tryUrls en w chain us = (r, w') \<Longrightarrow>
   (case r of
      Inr u \<Rightarrow>
        (\<exists>failed rest. us = failed @ u # rest \<and>
           calls w' = calls w @ map GetBlockNumber (failed @ [u]) \<and>
           (\<forall>i<length failed. rpc_getBlockNumber en (length (calls w) + i) (failed ! i) = None) \<and>
           rpc_getBlockNumber en (length (calls w) + length failed) u \<noteq> None \<and>
           lastSuccessfulRpcByChain w' = (lastSuccessfulRpcByChain w)(chain \<mapsto> u))
    | Inl e \<Rightarrow>
        e = AllEndpointsFailed \<and>
        calls w' = calls w @ map GetBlockNumber us \<and>
        (\<forall>i<length us. rpc_getBlockNumber en (length (calls w) + i) (us ! i) = None) \<and>
        lastSuccessfulRpcByChain w' = lastSuccessfulRpcByChain w)"
proof (induction us arbitrary: w)
  case Nil
  then show ?case by auto
next
  case (Cons url rest)
  show ?case
  proof (cases "rpc_getBlockNumber en (length (calls w)) url")
    case None
    let ?w1 = "w\<lparr>calls := calls w @ [GetBlockNumber url]\<rparr>"
    from None Cons.prems have step: "tryUrls en ?w1 chain rest = (r, w')"
      by (simp add: remote_def)
    note ih = Cons.IH [OF step]
    show ?thesis
    proof (cases r)
      case (Inl e)
      with ih None show ?thesis
        by (auto simp: nth_Cons split: nat.splits)
    next
      case (Inr u)
      with ih obtain failed rest' where
        f: "rest = failed @ u # rest'"
           "calls w' = calls ?w1 @ map GetBlockNumber (failed @ [u])"
           "\<forall>i<length failed. rpc_getBlockNumber en (length (calls ?w1) + i) (failed ! i) = None"
           "rpc_getBlockNumber en (length (calls ?w1) + length failed) u \<noteq> None"
           "lastSuccessfulRpcByChain w' = (lastSuccessfulRpcByChain ?w1)(chain \<mapsto> u)"
        by auto
      have "url # rest = (url # failed) @ u # rest'" using f(1) by simp
      moreover have "calls w' = calls w @ map GetBlockNumber ((url # failed) @ [u])"
        using f(2) by simp
      moreover have "\<forall>i<length (url # failed).
          rpc_getBlockNumber en (length (calls w) + i) ((url # failed) ! i) = None"
        using f(3) None by (auto simp: nth_Cons split: nat.splits)
      moreover have "rpc_getBlockNumber en (length (calls w) + length (url # failed)) u \<noteq> None"
        using f(4) by simp
      moreover have "lastSuccessfulRpcByChain w' = (lastSuccessfulRpcByChain w)(chain \<mapsto> u)"
        using f(5) by simp
      ultimately show ?thesis using Inr by (simp only: sum.case) blast
    qed
  next
    case (Some v)
    with Cons.prems have r: "r = Inr url"
      and w': "w' = (w\<lparr>calls := calls w @ [GetBlockNumber url]\<rparr>)\<lparr>lastSuccessfulRpcByChain :=
                 (lastSuccessfulRpcByChain w)(chain \<mapsto> url)\<rparr>"
      by (auto simp: remote_def)
    have "url # rest = [] @ url # rest" by simp
    then show ?thesis using r w' Some
      by (simp only: sum.case) (rule exI [of _ "[]"], auto)
  qed
qed

lemma removeDuplicates_set [simp]: "set (removeDuplicates xs) = set xs"
  by (induction xs rule: removeDuplicates.induct) auto

lemma removeDuplicates_distinct: "distinct (removeDuplicates xs)"
  by (induction xs rule: removeDuplicates.induct) auto

text \<open>
  \<open>removeDuplicates\<close> keeps the first copy of every element: it is \<open>remdups\<close> of the
  library, which keeps the last copy, on the reversed list.
\<close>

lemma remdups_snoc: "remdups (ys @ [x]) = remdups (removeAll x ys) @ [x]"
  by (induction ys) auto

lemma removeDuplicates_remdups: "removeDuplicates xs = rev (remdups (rev xs))"
proof (induction xs rule: removeDuplicates.induct)
  case 1
  show ?case by simp
next
  case (2 x xs)
  have "rev (removeAll x xs) = removeAll x (rev xs)"
    by (simp add: removeAll_filter_not_eq rev_filter)
  with 2 show ?case by (simp add: remdups_snoc)
qed

text \<open>
  C8. Endpoint selection is deterministic and ordered. The candidate list is the
  endpoint recorded in \<open>lastSuccessfulRpcByChain\<close> for the chain (if there is one, and it
  is not the empty string), then the primary endpoint, then the fallbacks, with every
  later copy of an endpoint removed: it has no duplicates, it starts with the recorded
  endpoint when there is one, and with the primary endpoint otherwise. The candidates
  are probed in that order: when the selector returns an endpoint, exactly the
  candidates up to it were probed, in order, all before it failed, it answered, and it
  is recorded for the chain; when the selector throws, every candidate was probed, in
  order, and the record is unchanged.
\<close>

theorem tryConnectToNetwork_ordered:
  assumes "tryConnectToNetwork en w chain = (r, w')"
  shows "candidateUrls w chain =
           removeDuplicates
             ((case lastSuccessfulRpcByChain w chain of
                 None \<Rightarrow> []
               | Some u \<Rightarrow> (if u = [] then [] else [u]))
              @ getRpcUrl chain # fallbackUrls chain) \<and>
         distinct (candidateUrls w chain) \<and>
         (\<forall>u. lastSuccessfulRpcByChain w chain = Some u \<and> u \<noteq> [] \<longrightarrow>
              candidateUrls w chain =
                u # removeDuplicates (removeAll u (getRpcUrl chain # fallbackUrls chain))) \<and>
         (lastSuccessfulRpcByChain w chain = None \<or> lastSuccessfulRpcByChain w chain = Some [] \<longrightarrow>
              candidateUrls w chain =
                getRpcUrl chain # removeDuplicates (removeAll (getRpcUrl chain) (fallbackUrls chain))) \<and>
         (case r of
            Inr u \<Rightarrow>
              (\<exists>failed rest. candidateUrls w chain = failed @ u # rest \<and>
                 calls w' = calls w @ map GetBlockNumber (failed @ [u]) \<and>
                 (\<forall>i<length failed.
                    rpc_getBlockNumber en (length (calls w) + i) (failed ! i) = None) \<and>
                 rpc_getBlockNumber en (length (calls w) + length failed) u \<noteq> None \<and>
                 lastSuccessfulRpcByChain w' = (lastSuccessfulRpcByChain w)(chain \<mapsto> u))
          | Inl e \<Rightarrow>
              e = AllEndpointsFailed \<and>
              calls w' = calls w @ map GetBlockNumber (candidateUrls w chain) \<and>
              (\<forall>i<length (candidateUrls w chain).
                 rpc_getBlockNumber en (length (calls w) + i) (candidateUrls w chain ! i) = None) \<and>
              lastSuccessfulRpcByChain w' = lastSuccessfulRpcByChain w)"
proof -
  have list: "candidateUrls w chain =
           removeDuplicates
             ((case lastSuccessfulRpcByChain w chain of
                 None \<Rightarrow> []
               | Some u \<Rightarrow> (if u = [] then [] else [u]))
              @ getRpcUrl chain # fallbackUrls chain)"
    by (simp add: candidateUrls_firstSeen lastSuccessful_def)
  have dist: "distinct (candidateUrls w chain)"
    by (simp only: list removeDuplicates_distinct)
  have rec: "\<forall>u. lastSuccessfulRpcByChain w chain = Some u \<and> u \<noteq> [] \<longrightarrow>
              candidateUrls w chain =
                u # removeDuplicates (removeAll u (getRpcUrl chain # fallbackUrls chain))"
    by (auto simp: list)
  have norec: "lastSuccessfulRpcByChain w chain = None \<or> lastSuccessfulRpcByChain w chain = Some [] \<longrightarrow>
              candidateUrls w chain =
                getRpcUrl chain # removeDuplicates (removeAll (getRpcUrl chain) (fallbackUrls chain))"
    by (auto simp: list)
  from assms have "tryUrls en w chain (candidateUrls w chain) = (r, w')"
    by (simp add: tryConnectToNetwork_def)
  from tryUrls_spec [OF this] list dist rec norec show ?thesis
    by blast
qed

lemma tryConnectToNetwork_env_abc:
  "tryConnectToNetwork env_abc w_init 1 =
     (Inr ''https://eth.llamarpc.com'',
      w_init\<lparr>calls :=
                [GetBlockNumber ''https://mainnet.infura.io/v3/9aa3d95b3bc440fa88ea12eaa4456161'',
                 GetBlockNumber ''https://rpc.ankr.com/eth'',
                 GetBlockNumber ''https://eth.llamarpc.com''],
              lastSuccessfulRpcByChain := [1 \<mapsto> ''https://eth.llamarpc.com'']\<rparr>)"
  by (simp add: tryConnectToNetwork_def candidateUrls_def lastSuccessful_def getRpcUrl_def
      SUPPORTED_CHAINS_def fallbackUrls_def pushIfNew_def w_init_def env_abc_def env_silent_def
      remote_def)

text \<open>
  On chain 5 the primary endpoint is also the second fallback; it is a candidate once.
\<close>

lemma candidateUrls_chain_5:
  "candidateUrls w_init 5 =
     [''https://goerli.infura.io/v3/9aa3d95b3bc440fa88ea12eaa4456161'',
      ''https://rpc.ankr.com/eth_goerli'']"
  by (simp add: candidateUrls_def lastSuccessful_def getRpcUrl_def SUPPORTED_CHAINS_def
      fallbackUrls_def pushIfNew_def w_init_def)

text \<open>
  With \<open>eth.llamarpc.com\<close> recorded for chain 1, it is probed first and not a second
  time at its place among the fallbacks; the four candidates before \<open>1rpc.io\<close> fail,
  \<open>1rpc.io\<close> answers and replaces it in the record.
\<close>

lemma candidateUrls_w_recorded:
  "candidateUrls w_recorded 1 =
     [''https://eth.llamarpc.com'',
      ''https://mainnet.infura.io/v3/9aa3d95b3bc440fa88ea12eaa4456161'',
      ''https://rpc.ankr.com/eth'',
      ''https://ethereum.publicnode.com'',
      ''https://1rpc.io/eth'']"
  by (simp add: candidateUrls_def lastSuccessful_def getRpcUrl_def SUPPORTED_CHAINS_def
      fallbackUrls_def pushIfNew_def w_recorded_def w_init_def)

lemma tryConnectToNetwork_env_last:
  "tryConnectToNetwork env_last w_recorded 1 =
     (Inr ''https://1rpc.io/eth'',
      w_init\<lparr>calls :=
                [GetBlockNumber ''https://eth.llamarpc.com'',
                 GetBlockNumber ''https://mainnet.infura.io/v3/9aa3d95b3bc440fa88ea12eaa4456161'',
                 GetBlockNumber ''https://rpc.ankr.com/eth'',
                 GetBlockNumber ''https://ethereum.publicnode.com'',
                 GetBlockNumber ''https://1rpc.io/eth''],
              lastSuccessfulRpcByChain := [1 \<mapsto> ''https://1rpc.io/eth'']\<rparr>)"
  by (simp add: tryConnectToNetwork_def candidateUrls_def lastSuccessful_def getRpcUrl_def
      SUPPORTED_CHAINS_def fallbackUrls_def pushIfNew_def w_recorded_def w_init_def
      env_last_def env_silent_def remote_def)

theorem tryConnectToNetwork_ordered_witness:
  "lastSuccessfulRpcByChain w_recorded 1 = Some ''https://eth.llamarpc.com'' \<and>
   ''https://eth.llamarpc.com'' \<in> set (fallbackUrls 1) \<and>
   fst (tryConnectToNetwork env_last w_recorded 1) = Inr ''https://1rpc.io/eth'' \<and>
   calls (snd (tryConnectToNetwork env_last w_recorded 1)) =
     [GetBlockNumber ''https://eth.llamarpc.com'',
      GetBlockNumber ''https://mainnet.infura.io/v3/9aa3d95b3bc440fa88ea12eaa4456161'',
      GetBlockNumber ''https://rpc.ankr.com/eth'',
      GetBlockNumber ''https://ethereum.publicnode.com'',
      GetBlockNumber ''https://1rpc.io/eth''] \<and>
   candidateUrls w_recorded 1 =
     ''https://eth.llamarpc.com'' #
       removeDuplicates (removeAll ''https://eth.llamarpc.com'' (getRpcUrl 1 # fallbackUrls 1)) \<and>
   candidateUrls w_recorded 1 =
     [''https://eth.llamarpc.com'',
      ''https://mainnet.infura.io/v3/9aa3d95b3bc440fa88ea12eaa4456161'',
      ''https://rpc.ankr.com/eth'',
      ''https://ethereum.publicnode.com'',
      ''https://1rpc.io/eth''] \<and>
   distinct (candidateUrls w_recorded 1) \<and>
   (\<exists>failed rest. candidateUrls w_recorded 1 = failed @ ''https://1rpc.io/eth'' # rest \<and>
      calls (snd (tryConnectToNetwork env_last w_recorded 1)) =
        calls w_recorded @ map GetBlockNumber (failed @ [''https://1rpc.io/eth'']) \<and>
      lastSuccessfulRpcByChain (snd (tryConnectToNetwork env_last w_recorded 1)) =
        (lastSuccessfulRpcByChain w_recorded)(1 \<mapsto> ''https://1rpc.io/eth''))"
proof -
  let ?X = "tryConnectToNetwork env_last w_recorded 1"
  have rcd: "lastSuccessfulRpcByChain w_recorded 1 = Some ''https://eth.llamarpc.com''"
    by (simp add: w_recorded_def)
  have ne: "''https://eth.llamarpc.com'' \<noteq> []"
    by simp
  have fb: "''https://eth.llamarpc.com'' \<in> set (fallbackUrls 1)"
    by (simp add: fallbackUrls_def)
  have r: "fst ?X = Inr ''https://1rpc.io/eth''"
    by (simp add: tryConnectToNetwork_env_last)
  have c: "calls (snd ?X) =
     [GetBlockNumber ''https://eth.llamarpc.com'',
      GetBlockNumber ''https://mainnet.infura.io/v3/9aa3d95b3bc440fa88ea12eaa4456161'',
      GetBlockNumber ''https://rpc.ankr.com/eth'',
      GetBlockNumber ''https://ethereum.publicnode.com'',
      GetBlockNumber ''https://1rpc.io/eth'']"
    by (simp add: tryConnectToNetwork_env_last)
  have "?X = (fst ?X, snd ?X)" by simp
  note ord = tryConnectToNetwork_ordered [OF this]
  from ord have d: "distinct (candidateUrls w_recorded 1)"
    by blast
  from ord rcd ne have h: "candidateUrls w_recorded 1 =
     ''https://eth.llamarpc.com'' #
       removeDuplicates (removeAll ''https://eth.llamarpc.com'' (getRpcUrl 1 # fallbackUrls 1))"
    by blast
  from ord have p: "\<exists>failed rest. candidateUrls w_recorded 1 = failed @ ''https://1rpc.io/eth'' # rest \<and>
      calls (snd ?X) =
        calls w_recorded @ map GetBlockNumber (failed @ [''https://1rpc.io/eth'']) \<and>
      lastSuccessfulRpcByChain (snd ?X) =
        (lastSuccessfulRpcByChain w_recorded)(1 \<mapsto> ''https://1rpc.io/eth'')"
    unfolding r sum.case by blast
  from rcd fb r c h d p candidateUrls_w_recorded show ?thesis
    by (intro conjI)
qed

section \<open>Properties of the BlockResolver\<close>

lemma number_toString_100: "number_toString 100 = ''100''"
  by code_simp

lemma fetchAttempts_all_fail:
  "(\<forall>i<k. rpc_getBlock en (length (calls w) + i) p n = None) \<Longrightarrow>
   fetchAttempts en w p n k = (None, w\<lparr>calls := calls w @ replicate k (GetBlock p n)\<rparr>)"
proof (induction k arbitrary: w)
  case 0
  show ?case by simp
next
  case (Suc k)
  from Suc.prems have first: "rpc_getBlock en (length (calls w)) p n = None"
    by (metis add.right_neutral zero_less_Suc)
  let ?w1 = "w\<lparr>calls := calls w @ [GetBlock p n]\<rparr>"
  have "\<forall>i<k. rpc_getBlock en (length (calls ?w1) + i) p n = None"
    using Suc.prems by (auto dest: spec [of _ "Suc _"])
  from Suc.IH [OF this] first show ?case
    by (simp add: remote_def replicate_append_same)
qed


lemma fetchAttempts_None:
  "fetchAttempts en w p n k = (None, w') \<Longrightarrow> blockCache w' = blockCache w"
  by (induction k arbitrary: w) (auto simp: remote_def split: option.splits)

text \<open>The resolver has no path that throws.\<close>

lemma getBlockWithRetries_returns:
  "\<exists>b w'. getBlockWithRetries en w p n k = (Inr b, w')"
  by (auto simp: getBlockWithRetries_def split: option.splits prod.splits)

text \<open>
  C7. When the block is not cached and all 3 attempts fail, the resolver returns a block
  (it does not throw) whose timestamp is extrapolated from the head,
  \<open>head.timestamp - (head.number - blockNumber) * 13\<close>; when fetching the head fails too,
  the timestamp is taken from the wall clock, \<open>floor(now / 1000) - 1000 * 13\<close>.
\<close>

theorem getBlockWithRetries_estimates:
  assumes miss: "blockCache w n = None"
    and fail: "\<forall>i<3. rpc_getBlock en (length (calls w) + i) p n = None"
  shows "\<exists>w'. getBlockWithRetries en w p n 3 =
           (Inr \<lparr>block_hash = ''estimated-'' @ number_toString n,
                 block_number = n,
                 block_timestamp =
                   (case rpc_getBlockLatest en (length (calls w) + 3) p of
                      Some head \<Rightarrow> block_timestamp head - (block_number head - n) * 13
                    | None \<Rightarrow> date_now en (clock_reads w) div 1000 - 1000 * 13)\<rparr>, w')"
  using miss fetchAttempts_all_fail [OF fail]
  by (simp add: getBlockWithRetries_def estimateTimestamp_def remote_def Date_now_def
      SECONDS_PER_BLOCK_def split: option.splits)

theorem getBlockWithRetries_estimates_witness:
  "blockCache w_init 100 = None \<and>
   rpc_getBlock env_flaky 0 ''p'' 100 = None \<and>
   rpc_getBlock env_flaky 1 ''p'' 100 = None \<and>
   rpc_getBlock env_flaky 2 ''p'' 100 = None \<and>
   fst (getBlockWithRetries env_flaky w_init ''p'' 100 3) =
     Inr \<lparr>block_hash = ''estimated-100'', block_number = 100, block_timestamp = 1700000000\<rparr> \<and>
   fst (getBlockWithRetries env_silent w_init ''p'' 100 3) =
     Inr \<lparr>block_hash = ''estimated-100'', block_number = 100, block_timestamp = 1699987000\<rparr>"
proof -
  have miss: "blockCache w_init 100 = None"
    by (simp add: w_init_def)
  have flaky: "\<forall>i<3. rpc_getBlock env_flaky (length (calls w_init) + i) ''p'' 100 = None"
    by (simp add: env_flaky_def env_silent_def w_init_def)
  have silent: "\<forall>i<3. rpc_getBlock env_silent (length (calls w_init) + i) ''p'' 100 = None"
    by (simp add: env_silent_def)
  from getBlockWithRetries_estimates [OF miss flaky]
  have 1: "fst (getBlockWithRetries env_flaky w_init ''p'' 100 3) =
     Inr \<lparr>block_hash = ''estimated-100'', block_number = 100, block_timestamp = 1700000000\<rparr>"
    by (auto simp: number_toString_100 env_flaky_def env_silent_def w_init_def)
  from getBlockWithRetries_estimates [OF miss silent]
  have 2: "fst (getBlockWithRetries env_silent w_init ''p'' 100 3) =
     Inr \<lparr>block_hash = ''estimated-100'', block_number = 100, block_timestamp = 1699987000\<rparr>"
    by (auto simp: number_toString_100 env_silent_def w_init_def)
  from miss 1 2 show ?thesis
    by (simp add: env_flaky_def env_silent_def)
qed



lemma getBlockWithRetries_fallback_not_cached:
  assumes "blockCache w n = None" and "fst (fetchAttempts en w p n k) = None"
  shows "blockCache (snd (getBlockWithRetries en w p n k)) n = None"
proof -
  obtain w' where fa: "fetchAttempts en w p n k = (None, w')"
    using assms(2) by (cases "fetchAttempts en w p n k") auto
  from fetchAttempts_None [OF fa] assms(1) fa show ?thesis
    by (simp add: getBlockWithRetries_def estimateTimestamp_def remote_def Date_now_def
        split: option.splits)
qed


section \<open>Properties of the chunk scan\<close>

lemma scanChunks_done:
  "\<not> chunkStart < currentBlock \<Longrightarrow>
   scanChunks en w p a currentBlock chunkStart allEvents = (allEvents, w)"
  by (subst scanChunks.simps) simp

text \<open>
  C5 fails on the code when the length of the range is a multiple of the chunk size (and
  when the range is a single block): the loop runs while \<open>chunkStart < currentBlock\<close>, so
  a chunk that would start at \<open>currentBlock\<close> is never generated. With the head at block
  10000 the range is [0, 10000]; whatever the service answers, the only query is for
  the blocks 0 to 9999, and block 10000 lies in no chunk.
\<close>

theorem scanChunks_misses_head_block:
  "calls (snd (scanChunks en w p a 10000 (max 0 (10000 - blockRange)) [])) =
     calls w @ [QueryFilter p a 0 9999]"
  apply (simp add: blockRange_def blocksPerDay_def daysToLookBack_def)
  apply (subst scanChunks.simps)
  apply (simp add: queryChunk_def remote_def chunkSize_def scanChunks_done split: option.splits)
  done

text \<open>
  In general the chunks of the loop are contiguous and disjoint, start at \<open>chunkStart\<close>
  and end at \<open>currentBlock\<close>, unless the length of the range is a multiple of the chunk
  size: then they end one block before. A scan that ends with at most 2000 events has
  queried exactly these chunks, in order.
\<close>

lemma chunkBounds_tiling:
  "concat (map (\<lambda>(s, e). [s..e]) (chunkBounds currentBlock chunkStart)) =
     [chunkStart..(if (currentBlock - chunkStart) mod chunkSize = 0 then currentBlock - 1
                   else currentBlock)]"
proof (induction currentBlock chunkStart rule: chunkBounds.induct)
  case (1 cur start)
  let ?L = "if (cur - start) mod chunkSize = 0 then cur - 1 else cur"
  show ?case
  proof (cases "start < cur")
    case False
    then have "chunkBounds cur start = []" by (subst chunkBounds.simps) simp
    moreover from False have "[start..?L] = []" by (cases "cur = start") auto
    ultimately show ?thesis by simp
  next
    case True
    have same: "(cur - (start + chunkSize)) mod chunkSize = (cur - start) mod chunkSize"
      by (simp only: diff_diff_eq [symmetric] minus_mod_self2)
    have cb: "chunkBounds cur start =
        (start, min cur (start + chunkSize - 1)) # chunkBounds cur (start + chunkSize)"
      using True by (subst chunkBounds.simps) simp
    from "1.IH" [OF True] same have ih:
      "concat (map (\<lambda>(s, e). [s..e]) (chunkBounds cur (start + chunkSize))) =
         [start + chunkSize..?L]" by simp
    show ?thesis
    proof (cases "start + chunkSize - 1 \<le> cur")
      case fits: True
      have "start + chunkSize - 1 \<le> ?L"
      proof (cases "cur = start + chunkSize - 1")
        case True
        then have "(cur - start) mod chunkSize = chunkSize - 1" by (simp add: chunkSize_def)
        with True show ?thesis by (simp add: chunkSize_def)
      next
        case False
        with fits show ?thesis by simp
      qed
      then have "[start..?L] = [start..start + chunkSize - 1] @ [start + chunkSize..?L]"
        using upto_split2 [of start "start + chunkSize - 1" ?L]
        by (simp add: chunkSize_def add.commute)
      moreover have "min cur (start + chunkSize - 1) = start + chunkSize - 1"
        using fits by simp
      ultimately show ?thesis using ih cb by simp
    next
      case False
      then have lt: "cur - start < chunkSize - 1" by simp
      with True have "(cur - start) mod chunkSize = cur - start" by simp
      with True have L: "?L = cur" by simp
      from False have "[start + chunkSize..cur] = []" by simp
      moreover have "min cur (start + chunkSize - 1) = cur"
        using False by simp
      ultimately show ?thesis using ih cb L by simp
    qed
  qed
qed
lemma scanChunks_calls_all:
  assumes "length (fst (scanChunks en w p a cur start all)) \<le> 2000"
  shows "calls (snd (scanChunks en w p a cur start all)) =
           calls w @ map (\<lambda>(s, e). QueryFilter p a s e) (chunkBounds cur start)"
  using assms
proof (induction en w p a cur start all rule: scanChunks.induct)
  case (1 en w p a cur start all)
  show ?case
  proof (cases "start < cur")
    case False
    then have "chunkBounds cur start = []" by (subst chunkBounds.simps) simp
    with False show ?thesis by (simp add: scanChunks_done)
  next
    case True
    let ?e = "min cur (start + chunkSize - 1)"
    let ?w1 = "w\<lparr>calls := calls w @ [QueryFilter p a start ?e]\<rparr>"
    have cb: "chunkBounds cur start = (start, ?e) # chunkBounds cur (start + chunkSize)"
      using True by (subst chunkBounds.simps) simp
    obtain all1 stop where q: "queryChunk en w p a start ?e all = ((all1, stop), ?w1)"
      by (cases "rpc_queryFilter en (length (calls w)) p a start ?e")
         (auto simp: queryChunk_def remote_def)
    show ?thesis
    proof (cases stop)
      case True
      with q have "2000 < length all1"
        by (auto simp: queryChunk_def remote_def split: option.splits)
      moreover from True q \<open>start < cur\<close>
      have "scanChunks en w p a cur start all = (all1, ?w1)"
        by (subst scanChunks.simps) simp
      ultimately show ?thesis using "1.prems" by simp
    next
      case False
      with q \<open>start < cur\<close>
      have step: "scanChunks en w p a cur start all =
                    scanChunks en ?w1 p a cur (start + chunkSize) all1"
        by (subst scanChunks.simps) simp
      with "1.prems" have "length (fst (scanChunks en ?w1 p a cur (start + chunkSize) all1)) \<le> 2000"
        by simp
      from "1.IH" [OF \<open>start < cur\<close> q [symmetric] refl False this] step cb show ?thesis
        by simp
    qed
  qed
qed

lemma scanChunks_env_cap:
  "scanChunks env_cap w_init ''p'' ''a'' 10001 0 [] =
     (replicate 2000 ev0 @ [ev0],
      w_init\<lparr>calls := [QueryFilter ''p'' ''a'' 0 9999, QueryFilter ''p'' ''a'' 10000 10001]\<rparr>)"
  apply (subst scanChunks.simps)
  apply (simp add: queryChunk_def remote_def chunkSize_def env_cap_def env_silent_def w_init_def)
  apply (subst scanChunks.simps)
  apply (simp add: queryChunk_def remote_def chunkSize_def env_cap_def env_silent_def w_init_def
      scanChunks_done)
  done

text \<open>
  C4, as stated, fails: the loop breaks when the accumulator holds more than 2000 events,
  and it tests this after a whole chunk has been appended. Under \<open>env_cap\<close> the first
  chunk brings the accumulator to 2000 events, the second chunk is still queried, and
  2001 events are collected.
\<close>

theorem scanChunks_exceeds_cap:
  "\<not> length (fst (scanChunks env_cap w_init ''p'' ''a'' 10001 0 [])) \<le> 2000 \<and>
   calls (snd (scanChunks env_cap w_init ''p'' ''a'' 10001 0 [])) =
     [QueryFilter ''p'' ''a'' 0 9999, QueryFilter ''p'' ''a'' 10000 10001]"
  by (simp add: scanChunks_env_cap)

text \<open>
  C4, amended. The scan stops as soon as the accumulator holds more than 2000 events: a
  scan that starts with at most 2000 events either ends with at most 2000, or the chunk
  that pushed the accumulator above 2000 is the last call made, so that all events
  but those of this last chunk number at most 2000.
\<close>

theorem scanChunks_stops_above_cap:
  assumes "scanChunks en w p a cur start all = (all', w')" and "length all \<le> 2000"
  shows "length all' \<le> 2000 \<or>
         (\<exists>pre events cs s e. all' = pre @ events \<and> length pre \<le> 2000 \<and>
            calls w' = cs @ [QueryFilter p a s e] \<and>
            rpc_queryFilter en (length cs) p a s e = Some events)"
  using assms
proof (induction en w p a cur start all rule: scanChunks.induct)
  case (1 en w p a cur start all)
  show ?case
  proof (cases "start < cur")
    case False
    with "1.prems" show ?thesis by (simp add: scanChunks_done)
  next
    case True
    let ?e = "min cur (start + chunkSize - 1)"
    let ?w1 = "w\<lparr>calls := calls w @ [QueryFilter p a start ?e]\<rparr>"
    show ?thesis
    proof (cases "rpc_queryFilter en (length (calls w)) p a start ?e")
      case None
      then have q: "queryChunk en w p a start ?e all = ((all, False), ?w1)"
        by (simp add: queryChunk_def remote_def)
      with True "1.prems"(1)
      have "scanChunks en ?w1 p a cur (start + chunkSize) all = (all', w')"
        by (subst (asm) scanChunks.simps) simp
      from "1.IH" [OF True q [symmetric] refl _ this "1.prems"(2)] show ?thesis by simp
    next
      case (Some events)
      show ?thesis
      proof (cases "2000 < length (all @ events)")
        case over: True
        with Some have q: "queryChunk en w p a start ?e all = ((all @ events, True), ?w1)"
          by (simp add: queryChunk_def remote_def)
        with True "1.prems"(1) have "all' = all @ events" "w' = ?w1"
          by (subst (asm) scanChunks.simps, simp)+
        with Some "1.prems"(2) show ?thesis by auto
      next
        case under: False
        with Some have q: "queryChunk en w p a start ?e all = ((all @ events, False), ?w1)"
          by (simp add: queryChunk_def remote_def)
        with True "1.prems"(1)
        have "scanChunks en ?w1 p a cur (start + chunkSize) (all @ events) = (all', w')"
          by (subst (asm) scanChunks.simps) simp
        from "1.IH" [OF True q [symmetric] refl _ this] under show ?thesis by simp
      qed
    qed
  qed
qed

theorem scanChunks_stops_above_cap_witness:
  "length ([] :: Event list) \<le> 2000 \<and>
   length (fst (scanChunks env_cap w_init ''p'' ''a'' 10001 0 [])) = 2001 \<and>
   (\<exists>pre events cs s e.
      fst (scanChunks env_cap w_init ''p'' ''a'' 10001 0 []) = pre @ events \<and>
      length pre \<le> 2000 \<and>
      calls (snd (scanChunks env_cap w_init ''p'' ''a'' 10001 0 [])) =
        cs @ [QueryFilter ''p'' ''a'' s e] \<and>
      rpc_queryFilter env_cap (length cs) ''p'' ''a'' s e = Some events)"
proof -
  let ?X = "scanChunks env_cap w_init ''p'' ''a'' 10001 0 []"
  have len: "length (fst ?X) = 2001"
    by (simp add: scanChunks_env_cap)
  have "?X = (fst ?X, snd ?X)" by simp
  from scanChunks_stops_above_cap [OF this] len show ?thesis by simp
qed

section \<open>Properties of the pipeline\<close>

lemma BigNumber_toString_examples:
  "BigNumber_toString 10 = ''10''" "BigNumber_toString 1 = ''1''"
  "BigNumber_toString 1000 = ''1000''"
  by code_simp+

lemma isLargeTransferCheck_examples:
  "isLargeTransferCheck ''10'' ''1000'' = True" "isLargeTransferCheck ''1'' ''1000'' = False"
  by code_simp+

lemma prefetchBlocks_Nil: "prefetchBlocks en w p [] = w"
  by (subst prefetchBlocks.simps) simp

lemma prefetchBlocks_Cons:
  "prefetchBlocks en w p (n # ns) =
     prefetchBlocks en (settleBatch en w p (take 20 (n # ns))) p (drop 20 (n # ns))"
  by (subst prefetchBlocks.simps) simp

lemma fetchTokenData_env_demo:
  "fst (fetchTokenData env_demo w_init ''0x70ce'' 1 None) = Inr metrics_demo"
  apply (simp add: fetchTokenData_def numeral_3_eq_3 tryConnectToNetwork_def candidateUrls_def
      lastSuccessful_def getRpcUrl_def SUPPORTED_CHAINS_def fallbackUrls_def pushIfNew_def
      w_init_def env_demo_def env_silent_def remote_def fetchDescriptor_def getTokenInfo_def
      readFields_def fieldOrDefault_def BigNumber_toString_examples computeMarketData_def
      currentBlockNumber_def retrieveTransfers_def blockRange_def blocksPerDay_def
      daysToLookBack_def addOffMarketSales_def)
  apply (subst scanChunks.simps)
  apply (simp add: queryChunk_def remote_def chunkSize_def scanChunks_done evA_def evB_def
      processTransferEvents_def blockNumbersOf_def prefetchBlocks_Nil prefetchBlocks_Cons
      settleBatch_def getBlockWithRetries_def numeral_3_eq_3 BigNumber_toString_examples
      isLargeTransferCheck_examples metrics_demo_def info_demo_def transferA_def transferB_def)
  done

lemma retrieveTransfers_large:
  "retrieveTransfers en w p a info cb = ((recent, large), w') \<Longrightarrow>
   large = filter isLargeTransferFlag recent"
  by (auto simp: retrieveTransfers_def Let_def split: prod.splits sum.splits if_splits)

text \<open>
  C9. In every token metrics the pipeline returns, the large transfers are the recent
  transfers whose flag is set, in the same order: a subsequence of the recent transfers.
\<close>

theorem fetchTokenData_largeTransfers:
  assumes "fetchTokenData en w a chain priceUsd = (Inr m, w')"
  shows "largeTransfers m = filter isLargeTransferFlag (recentTransfers m) \<and>
         subseq (largeTransfers m) (recentTransfers m)"
proof -
  from assms obtain p w3 info cb recent large w4 where
    "retrieveTransfers en w3 p a info cb = ((recent, large), w4)"
    "recentTransfers m = recent" "largeTransfers m = large"
    by (auto simp: fetchTokenData_def Let_def split: prod.splits sum.splits)
  with retrieveTransfers_large [of en w3 p a info cb recent large w4] show ?thesis
    by simp
qed

theorem fetchTokenData_largeTransfers_witness:
  "fst (fetchTokenData env_demo w_init ''0x70ce'' 1 None) = Inr metrics_demo \<and>
   recentTransfers metrics_demo = [transferB, transferA] \<and>
   largeTransfers metrics_demo = [transferA] \<and>
   largeTransfers metrics_demo = filter isLargeTransferFlag (recentTransfers metrics_demo) \<and>
   subseq (largeTransfers metrics_demo) (recentTransfers metrics_demo)"
proof -
  let ?X = "fetchTokenData env_demo w_init ''0x70ce'' 1 None"
  have "?X = (Inr metrics_demo, snd ?X)"
    using fetchTokenData_env_demo by (metis prod.collapse)
  from fetchTokenData_largeTransfers [OF this] fetchTokenData_env_demo show ?thesis
    by (simp add: metrics_demo_def)
qed

text \<open>
  C3, as stated, fails: after the connection and the token descriptor, the pipeline
  fetches the current block number, and throws when that call fails. Under \<open>env_nohead\<close>
  the connection succeeds and the descriptor is fetched, and the pipeline fails.
\<close>

theorem fetchTokenData_fails_after_descriptor:
  "fst (connectAttempts env_nohead w_init 1 3) =
     Inr ''https://mainnet.infura.io/v3/9aa3d95b3bc440fa88ea12eaa4456161'' \<and>
   fst (fetchDescriptor env_nohead (snd (connectAttempts env_nohead w_init 1 3)) ''0x70ce''
          ''https://mainnet.infura.io/v3/9aa3d95b3bc440fa88ea12eaa4456161'') = Inr info_demo \<and>
   fst (fetchTokenData env_nohead w_init ''0x70ce'' 1 None) = Inl CurrentBlockFailed"
  by (simp add: fetchTokenData_def numeral_3_eq_3 tryConnectToNetwork_def candidateUrls_def
      lastSuccessful_def getRpcUrl_def SUPPORTED_CHAINS_def fallbackUrls_def pushIfNew_def
      w_init_def env_nohead_def env_demo_def env_silent_def remote_def fetchDescriptor_def
      getTokenInfo_def readFields_def fieldOrDefault_def BigNumber_toString_examples
      computeMarketData_def currentBlockNumber_def info_demo_def)

text \<open>
  C3, amended. The pipeline returns token metrics exactly when the connection is
  established (within its 3 attempts), the token descriptor is fetched and the current
  block number is fetched; it can fail from these three steps only. Once they have
  succeeded, no later stage (chunk scan, block resolution, classification, market and
  off-market computation) makes the pipeline fail.
\<close>

theorem fetchTokenData_succeeds_iff:
  "(\<exists>m w'. fetchTokenData en w a chain priceUsd = (Inr m, w')) \<longleftrightarrow>
   (\<exists>p w1 info w2 cb w3.
      connectAttempts en w chain 3 = (Inr p, w1) \<and>
      fetchDescriptor en w1 a p = (Inr info, w2) \<and>
      currentBlockNumber en w2 p = (Inr cb, w3))"
  by (auto simp: fetchTokenData_def Let_def split: prod.splits sum.splits)

theorem fetchTokenData_succeeds_iff_witness:
  "fst (fetchTokenData env_demo w_init ''0x70ce'' 1 None) = Inr metrics_demo \<and>
   (\<exists>p w1 info w2 cb w3.
      connectAttempts env_demo w_init 1 3 = (Inr p, w1) \<and>
      fetchDescriptor env_demo w1 ''0x70ce'' p = (Inr info, w2) \<and>
      currentBlockNumber env_demo w2 p = (Inr cb, w3))"
proof -
  let ?X = "fetchTokenData env_demo w_init ''0x70ce'' 1 None"
  have "?X = (Inr metrics_demo, snd ?X)"
    using fetchTokenData_env_demo by (metis prod.collapse)
  then have "\<exists>m w'. ?X = (Inr m, w')" by blast
  with fetchTokenData_succeeds_iff [of env_demo w_init "''0x70ce''" 1 None]
    fetchTokenData_env_demo
  show ?thesis by blast
qed

section \<open>Properties of the TransferClassifier\<close>

text \<open>
  C1 fails on the classifier of the pipeline. \<open>isLargeTransferCheck\<close> computes
  \<open>value * 100 / totalSupply\<close> in integers, which truncates to whole percents, divides by
  100 and compares with 0.005: a transfer is large only from 1 percent of the supply on.
  A transfer of 5 (or 9) out of 1000 is not classified large, although
  \<open>5 * 1000 / 1000 \<ge> 5\<close>; the standalone \<open>isLargeTransfer\<close> classifies it large.
\<close>

theorem isLargeTransferCheck_half_percent:
  "isLargeTransferCheck ''5'' ''1000'' = False \<and>
   isLargeTransferCheck ''9'' ''1000'' = False \<and>
   isLargeTransferCheck ''10'' ''1000'' = True \<and>
   isLargeTransfer ''5'' ''1000'' = True \<and>
   (5 :: int) \<le> 5 * 1000 div 1000"
  by (intro conjI; code_simp)

text \<open>
  The standalone classifier compares with \<open>totalSupply * 5 / 1000\<close> truncated, which
  differs from the formula of C1 when the supply is not a multiple of 200.
\<close>

lemma isLargeTransfer_truncated_threshold:
  "isLargeTransfer ''0'' ''1'' = True" "isLargeTransfer ''5'' ''1001'' = True"
  "\<not> (5 :: int) \<le> 0 * 1000 div 1" "\<not> (5 :: int) \<le> 5 * 1000 div 1001"
  by code_simp+

text \<open>
  In general, on the decimal strings of two big numbers the classifier of the pipeline
  answers whether \<open>value * 100 / totalSupply\<close>, truncated, is at least 1 (and fits 53
  bits): its threshold is 1 percent of the supply. The standalone classifier compares
  the value with \<open>totalSupply * 5 / 1000\<close>, truncated.
\<close>

lemma BigNumber_toString_nonempty: "BigNumber_toString i \<noteq> []"
  by (simp add: BigNumber_toString_def show_digits_nonempty)

lemma isLargeTransferCheck_threshold:
  "isLargeTransferCheck (BigNumber_toString v) (BigNumber_toString s) =
     (s \<noteq> 0 \<and> 1 \<le> BigNumber_div (v * 100) s \<and> BigNumber_div (v * 100) s < 9007199254740992)"
  by (auto simp: isLargeTransferCheck_def BigNumber_toString_nonempty BigNumber_from_toString
      BigNumber_toNumber_def Let_def percent_compare_normal)

lemma isLargeTransfer_threshold:
  "isLargeTransfer (BigNumber_toString v) (BigNumber_toString s) =
     (s \<noteq> 0 \<and> BigNumber_div (s * 5) 1000 \<le> v)"
  by (simp add: isLargeTransfer_def BigNumber_from_toString Let_def)

section \<open>Properties of the MarketMetricsCalculator\<close>

lemma parseFloat_zero: "parseFloat_formatUnits ''0'' 18 = Inr (Fin 0)"
  by code_simp

lemma round_double_0: "round_double 0 = Fin 0"
  by (simp add: round_double_def)

text \<open>
  C6 fails on \<open>analyzeOffMarketSales\<close>: it returns early for an empty transfer list and
  for a non-positive price, but divides by the market cap and by the total supply
  without a test. With a total supply of 0, one transfer (not large) and the price 1
  the three percentages are NaN, whatever the environment.
\<close>

theorem analyzeOffMarketSales_zero_supply:
  "fst (analyzeOffMarketSales en w [transferB] (info_demo\<lparr>totalSupply := ''0''\<rparr>) (Fin 1)) =
     Inr \<lparr>abovePrice = NaN, belowPrice = NaN, percentage = NaN, volumeUSD = Fin 0\<rparr>"
  by (simp add: analyzeOffMarketSales_def transferB_def info_demo_def fle_def noVolumes_def
      parseFloat_zero calculateMarketCap_def round_double_0 num_of_int_100)

lemma parseFloat_examples:
  "parseFloat_formatUnits ''100000000000000000'' 18 =
     Inr (Fin (3602879701896397 / 36028797018963968))"
  "parseFloat_formatUnits ''200000000000000000'' 18 =
     Inr (Fin (3602879701896397 / 18014398509481984))"
  "parseFloat_formatUnits ''300000000000000000'' 18 =
     Inr (Fin (5404319552844595 / 18014398509481984))"
  by code_simp+

lemma fadd_examples:
  "fadd (Fin 0) (Fin (3602879701896397 / 36028797018963968)) =
     Fin (3602879701896397 / 36028797018963968)"
  "fadd (Fin (3602879701896397 / 36028797018963968)) (Fin (3602879701896397 / 18014398509481984)) =
     Fin (1351079888211149 / 4503599627370496)"
  "fadd (Fin (1351079888211149 / 4503599627370496)) (Fin (5404319552844595 / 18014398509481984)) =
     Fin (1351079888211149 / 2251799813685248)"
  "fadd (Fin 0) (Fin (3602879701896397 / 18014398509481984)) =
     Fin (3602879701896397 / 18014398509481984)"
  "fadd (Fin (3602879701896397 / 18014398509481984)) (Fin (5404319552844595 / 18014398509481984)) =
     Fin (1 / 2)"
  "fadd (Fin (1 / 2)) (Fin (3602879701896397 / 36028797018963968)) =
     Fin (5404319552844595 / 9007199254740992)"
  by code_simp+

lemma heuristic_examples:
  "feq (fmod (Fin (3602879701896397 / 18014398509481984)) (num_of_int 10)) (Fin 0) = False"
  "feq (fmod (Fin (5404319552844595 / 18014398509481984)) (num_of_int 10)) (Fin 0) = False"
  "fgt (Fin 0) (round_double (5 / 10)) = False"
  by code_simp+

lemma forEachLargeTransfer_example:
  "fst (forEachLargeTransfer env_silent w_init 18 noVolumes
          (filter isLargeTransferFlag [transfer01, transfer02, transfer03])) =
     Inr \<lparr>totalVolumeTokens = Fin (1351079888211149 / 2251799813685248),
           abovePriceVolume = Fin (1 / 2),
           belowPriceVolume = Fin (3602879701896397 / 36028797018963968)\<rparr>"
  unfolding transfer01_def transfer02_def transfer03_def noVolumes_def
  apply (simp only: filter.simps TokenTransfer.simps if_True forEachLargeTransfer.simps)
  apply (simp only: isBelowMarketPrice_def startsWith_def Date_now_def Math_random_def
      parseFloat_examples fadd_examples heuristic_examples env_silent_def w_init_def
      env.simps world.simps TokenTransfer.simps Volumes.simps sum.case prod.case Let_def
      list.size take.simps take_Suc_Cons length_Cons)
  apply simp
  done

text \<open>
  C10, as stated, fails: the volumes are JavaScript numbers, and their addition rounds.
  For three large transfers of 0.1, 0.2 and 0.3 tokens, the first below the price and
  the other two above, the total is \<open>(0.1 + 0.2) + 0.3 = 0.6000000000000001\<close>, the bucket
  above is \<open>0.2 + 0.3 = 0.5\<close>, the bucket below is \<open>0.1\<close>, and \<open>0.5 + 0.1 = 0.6\<close>.
\<close>

theorem forEachLargeTransfer_buckets_round:
  "fst (forEachLargeTransfer env_silent w_init 18 noVolumes
          (filter isLargeTransferFlag [transfer01, transfer02, transfer03])) =
     Inr \<lparr>totalVolumeTokens = Fin (1351079888211149 / 2251799813685248),
           abovePriceVolume = Fin (1 / 2),
           belowPriceVolume = Fin (3602879701896397 / 36028797018963968)\<rparr> \<and>
   fadd (Fin (1 / 2)) (Fin (3602879701896397 / 36028797018963968)) =
     Fin (5404319552844595 / 9007199254740992) \<and>
   Fin (5404319552844595 / 9007199254740992) \<noteq> Fin (1351079888211149 / 2251799813685248)"
proof (intro conjI)
  show "fst (forEachLargeTransfer env_silent w_init 18 noVolumes
          (filter isLargeTransferFlag [transfer01, transfer02, transfer03])) =
     Inr \<lparr>totalVolumeTokens = Fin (1351079888211149 / 2251799813685248),
           abovePriceVolume = Fin (1 / 2),
           belowPriceVolume = Fin (3602879701896397 / 36028797018963968)\<rparr>"
    by (rule forEachLargeTransfer_example)
  show "fadd (Fin (1 / 2)) (Fin (3602879701896397 / 36028797018963968)) =
     Fin (5404319552844595 / 9007199254740992)"
    by (rule fadd_examples(6))
  show "Fin (5404319552844595 / 9007199254740992) \<noteq> Fin (1351079888211149 / 2251799813685248)"
    by simp
qed

lemma belowOutcomes_example:
  "belowOutcomes env_silent w_init
     (filter isLargeTransferFlag [transfer01, transfer02, transfer03]) = [True, False, False]"
  unfolding transfer01_def transfer02_def transfer03_def
  apply (simp only: filter.simps TokenTransfer.simps if_True belowOutcomes.simps)
  apply (simp only: isBelowMarketPrice_def startsWith_def Date_now_def Math_random_def
      parseFloat_examples heuristic_examples env_silent_def w_init_def
      env.simps world.simps TokenTransfer.simps sum.case prod.case Let_def
      list.size take.simps take_Suc_Cons length_Cons)
  apply simp
  done

text \<open>
  The loop adds every amount to the total and, according to the answer of
  \<open>isBelowMarketPrice\<close> for its transfer, to the bucket below or to the bucket above.
\<close>

lemma forEachLargeTransfer_partition:
  "forEachLargeTransfer en w d vol ts = (Inr vol', w') \<Longrightarrow>
   \<exists>amounts.
     map (\<lambda>t. parseFloat_formatUnits (value_string t) d) ts = map Inr amounts \<and>
     length (belowOutcomes en w ts) = length ts \<and>
     totalVolumeTokens vol' = foldl fadd (totalVolumeTokens vol) amounts \<and>
     belowPriceVolume vol' =
       foldl fadd (belowPriceVolume vol)
         (map fst (filter snd (zip amounts (belowOutcomes en w ts)))) \<and>
     abovePriceVolume vol' =
       foldl fadd (abovePriceVolume vol)
         (map fst (filter (\<lambda>x. \<not> snd x) (zip amounts (belowOutcomes en w ts))))"
proof (induction ts arbitrary: w vol)
  case Nil
  then show ?case by simp
next
  case (Cons t ts)
  from Cons.prems obtain amt where amt: "parseFloat_formatUnits (value_string t) d = Inr amt"
    by (cases "parseFloat_formatUnits (value_string t) d") auto
  from Cons.prems amt obtain b w1 where b: "isBelowMarketPrice en w t = (Inr b, w1)"
    by (cases "isBelowMarketPrice en w t"; cases "fst (isBelowMarketPrice en w t)")
       (auto simp: Let_def)
  let ?vol1 = "vol\<lparr>totalVolumeTokens := fadd (totalVolumeTokens vol) amt\<rparr>"
  let ?vol2 = "if b then ?vol1\<lparr>belowPriceVolume := fadd (belowPriceVolume ?vol1) amt\<rparr>
               else ?vol1\<lparr>abovePriceVolume := fadd (abovePriceVolume ?vol1) amt\<rparr>"
  from Cons.prems amt b have rec: "forEachLargeTransfer en w1 d ?vol2 ts = (Inr vol', w')"
    by (simp add: Let_def split: if_splits)
  have outcomes: "belowOutcomes en w (t # ts) = b # belowOutcomes en w1 ts"
    using b by simp
  from Cons.IH [OF rec] obtain amounts where ih:
    "map (\<lambda>t. parseFloat_formatUnits (value_string t) d) ts = map Inr amounts"
    "length (belowOutcomes en w1 ts) = length ts"
    "totalVolumeTokens vol' = foldl fadd (totalVolumeTokens ?vol2) amounts"
    "belowPriceVolume vol' =
       foldl fadd (belowPriceVolume ?vol2)
         (map fst (filter snd (zip amounts (belowOutcomes en w1 ts))))"
    "abovePriceVolume vol' =
       foldl fadd (abovePriceVolume ?vol2)
         (map fst (filter (\<lambda>x. \<not> snd x) (zip amounts (belowOutcomes en w1 ts))))"
    by blast
  show ?case
    unfolding outcomes
    by (rule exI [of _ "amt # amounts"]) (use ih amt in \<open>auto split: if_splits\<close>)
qed

text \<open>
  C10, amended. For non-empty transfers and a positive price, when
  \<open>analyzeOffMarketSales\<close> returns: every large transfer's amount is added to the total
  and to exactly one of the two buckets, the one that \<open>isBelowMarketPrice\<close> selects for
  the transfer, whatever it answers. With the large transfers in order, their amounts
  and the answers of \<open>isBelowMarketPrice\<close> for them (one for each): the total is the
  running sum (with the rounding of each addition) of the amounts, the bucket below the
  running sum of the amounts whose transfer was classified below, the bucket above the
  running sum of the others; \<open>volumeUSD\<close> is the rounded product of the total and the
  price, \<open>belowPrice\<close> and \<open>abovePrice\<close> are computed from the bucket below and the
  bucket above, and \<open>percentage\<close> from the total. That the sum of the two buckets
  equals the total is not part of the statement.
\<close>

theorem analyzeOffMarketSales_bookkeeping:
  assumes "analyzeOffMarketSales en w transfers info currentPrice = (Inr r, w')"
    and "transfers \<noteq> []" and "\<not> fle currentPrice (Fin 0)"
  shows "\<exists>vol amounts totalSupplyTokens.
     fst (forEachLargeTransfer en w (decimals info) noVolumes
            (filter isLargeTransferFlag transfers)) = Inr vol \<and>
     map (\<lambda>t. parseFloat_formatUnits (value_string t) (decimals info))
       (filter isLargeTransferFlag transfers) = map Inr amounts \<and>
     length (belowOutcomes en w (filter isLargeTransferFlag transfers)) =
       length (filter isLargeTransferFlag transfers) \<and>
     totalVolumeTokens vol = foldl fadd (Fin 0) amounts \<and>
     belowPriceVolume vol =
       foldl fadd (Fin 0)
         (map fst (filter snd
            (zip amounts (belowOutcomes en w (filter isLargeTransferFlag transfers))))) \<and>
     abovePriceVolume vol =
       foldl fadd (Fin 0)
         (map fst (filter (\<lambda>x. \<not> snd x)
            (zip amounts (belowOutcomes en w (filter isLargeTransferFlag transfers))))) \<and>
     volumeUSD r = fmul (totalVolumeTokens vol) currentPrice \<and>
     belowPrice r =
       fmul (fdiv (fmul (belowPriceVolume vol) currentPrice)
               (calculateMarketCap (totalSupply info) (decimals info) currentPrice))
            (num_of_int 100) \<and>
     abovePrice r =
       fmul (fdiv (fmul (abovePriceVolume vol) currentPrice)
               (calculateMarketCap (totalSupply info) (decimals info) currentPrice))
            (num_of_int 100) \<and>
     parseFloat_formatUnits (totalSupply info) (decimals info) = Inr totalSupplyTokens \<and>
     percentage r = fmul (fdiv (totalVolumeTokens vol) totalSupplyTokens) (num_of_int 100)"
proof -
  let ?large = "filter isLargeTransferFlag transfers"
  let ?cap = "calculateMarketCap (totalSupply info) (decimals info) currentPrice"
  from assms obtain vol w1 totalSupplyTokens where
    loop: "forEachLargeTransfer en w (decimals info) noVolumes ?large = (Inr vol, w1)"
    and usd: "volumeUSD r = fmul (totalVolumeTokens vol) currentPrice"
    and tokens: "parseFloat_formatUnits (totalSupply info) (decimals info) = Inr totalSupplyTokens"
    and pct: "percentage r = fmul (fdiv (totalVolumeTokens vol) totalSupplyTokens) (num_of_int 100)"
    and below: "belowPrice r =
       fmul (fdiv (fmul (belowPriceVolume vol) currentPrice) ?cap) (num_of_int 100)"
    and above: "abovePrice r =
       fmul (fdiv (fmul (abovePriceVolume vol) currentPrice) ?cap) (num_of_int 100)"
    by (auto simp: analyzeOffMarketSales_def Let_def split: sum.splits prod.splits)
  from forEachLargeTransfer_partition [OF loop] obtain amounts where part:
    "map (\<lambda>t. parseFloat_formatUnits (value_string t) (decimals info)) ?large = map Inr amounts"
    "length (belowOutcomes en w ?large) = length ?large"
    "totalVolumeTokens vol = foldl fadd (totalVolumeTokens noVolumes) amounts"
    "belowPriceVolume vol =
       foldl fadd (belowPriceVolume noVolumes)
         (map fst (filter snd (zip amounts (belowOutcomes en w ?large))))"
    "abovePriceVolume vol =
       foldl fadd (abovePriceVolume noVolumes)
         (map fst (filter (\<lambda>x. \<not> snd x) (zip amounts (belowOutcomes en w ?large))))"
    by blast
  have zero: "totalVolumeTokens noVolumes = Fin 0" "belowPriceVolume noVolumes = Fin 0"
    "abovePriceVolume noVolumes = Fin 0"
    by (simp_all add: noVolumes_def)
  have "fst (forEachLargeTransfer en w (decimals info) noVolumes ?large) = Inr vol"
    by (simp add: loop)
  with part usd below above tokens pct show ?thesis
    unfolding zero by blast
qed

theorem analyzeOffMarketSales_bookkeeping_witness:
  "[transfer01, transfer02, transfer03] \<noteq> [] \<and> \<not> fle (Fin 1) (Fin 0) \<and>
   belowOutcomes env_silent w_init
     (filter isLargeTransferFlag [transfer01, transfer02, transfer03]) = [True, False, False] \<and>
   (\<exists>r vol.
      fst (analyzeOffMarketSales env_silent w_init [transfer01, transfer02, transfer03]
             info_demo (Fin 1)) = Inr r \<and>
      fst (forEachLargeTransfer env_silent w_init (decimals info_demo) noVolumes
             (filter isLargeTransferFlag [transfer01, transfer02, transfer03])) = Inr vol \<and>
      totalVolumeTokens vol =
        foldl fadd (Fin 0)
          [Fin (3602879701896397 / 36028797018963968),
           Fin (3602879701896397 / 18014398509481984),
           Fin (5404319552844595 / 18014398509481984)] \<and>
      belowPriceVolume vol = foldl fadd (Fin 0) [Fin (3602879701896397 / 36028797018963968)] \<and>
      abovePriceVolume vol =
        foldl fadd (Fin 0)
          [Fin (3602879701896397 / 18014398509481984),
           Fin (5404319552844595 / 18014398509481984)] \<and>
      volumeUSD r = fmul (totalVolumeTokens vol) (Fin 1) \<and>
      volumeUSD r = fmul (Fin (1351079888211149 / 2251799813685248)) (Fin 1))"
proof -
  define ts where "ts = [transfer01, transfer02, transfer03]"
  define large where "large = filter isLargeTransferFlag ts"
  define L where "L = forEachLargeTransfer env_silent w_init 18 noVolumes large"
  define vol0 where "vol0 = \<lparr>totalVolumeTokens = Fin (1351079888211149 / 2251799813685248),
           abovePriceVolume = Fin (1 / 2),
           belowPriceVolume = Fin (3602879701896397 / 36028797018963968)\<rparr>"
  have ne: "ts \<noteq> []"
    by (simp add: ts_def)
  have pos: "\<not> fle (Fin 1) (Fin 0)"
    by (simp add: fle_def)
  have dec: "decimals info_demo = 18"
    by (simp add: info_demo_def)
  have outcomes: "belowOutcomes env_silent w_init large = [True, False, False]"
    unfolding large_def ts_def by (rule belowOutcomes_example)
  have parsed: "map (\<lambda>t. parseFloat_formatUnits (value_string t) 18) large =
      map Inr [Fin (3602879701896397 / 36028797018963968),
               Fin (3602879701896397 / 18014398509481984),
               Fin (5404319552844595 / 18014398509481984)]"
    unfolding large_def ts_def transfer01_def transfer02_def transfer03_def
    by (simp add: parseFloat_examples)
  have "fst L = Inr vol0"
    unfolding L_def large_def ts_def vol0_def by (rule forEachLargeTransfer_example)
  then have loop: "forEachLargeTransfer env_silent w_init 18 noVolumes large = (Inr vol0, snd L)"
    unfolding L_def by (metis prod.collapse)
  obtain x where x: "parseFloat_formatUnits ''1000'' 18 = Inr x"
    by (simp add: parseFloat_formatUnits_def BigNumber_from_def parse_unsigned_def dec_digit_def)
  have "\<exists>r. analyzeOffMarketSales env_silent w_init ts info_demo (Fin 1) = (Inr r, snd L)"
    unfolding analyzeOffMarketSales_def large_def [symmetric]
    using pos loop x ne by (simp add: info_demo_def Let_def)
  then obtain r where r: "analyzeOffMarketSales env_silent w_init ts info_demo (Fin 1) = (Inr r, snd L)" ..
  from analyzeOffMarketSales_bookkeeping [OF r ne pos]
  obtain vol amounts where b:
    "fst (forEachLargeTransfer env_silent w_init 18 noVolumes large) = Inr vol"
    "map (\<lambda>t. parseFloat_formatUnits (value_string t) 18) large = map Inr amounts"
    "totalVolumeTokens vol = foldl fadd (Fin 0) amounts"
    "belowPriceVolume vol =
       foldl fadd (Fin 0)
         (map fst (filter snd (zip amounts (belowOutcomes env_silent w_init large))))"
    "abovePriceVolume vol =
       foldl fadd (Fin 0)
         (map fst (filter (\<lambda>x. \<not> snd x) (zip amounts (belowOutcomes env_silent w_init large))))"
    "volumeUSD r = fmul (totalVolumeTokens vol) (Fin 1)"
    unfolding large_def [symmetric] dec by blast
  from b(1) loop have vol: "vol = vol0"
    by simp
  from b(2) parsed have amounts: "amounts =
      [Fin (3602879701896397 / 36028797018963968),
       Fin (3602879701896397 / 18014398509481984),
       Fin (5404319552844595 / 18014398509481984)]"
    by (metis inj_Inr inj_map_eq_map)
  have t: "totalVolumeTokens vol =
        foldl fadd (Fin 0)
          [Fin (3602879701896397 / 36028797018963968),
           Fin (3602879701896397 / 18014398509481984),
           Fin (5404319552844595 / 18014398509481984)]"
    using b(3) unfolding amounts .
  have bl: "belowPriceVolume vol =
        foldl fadd (Fin 0) [Fin (3602879701896397 / 36028797018963968)]"
    using b(4) unfolding amounts outcomes by (simp only: zip.simps list.case filter.simps
        snd_conv fst_conv if_True if_False list.map zip_Cons_Cons zip_Nil)
  have ab: "abovePriceVolume vol =
        foldl fadd (Fin 0)
          [Fin (3602879701896397 / 18014398509481984),
           Fin (5404319552844595 / 18014398509481984)]"
    using b(5) unfolding amounts outcomes by (simp only: zip.simps list.case filter.simps
        snd_conv fst_conv if_True if_False list.map zip_Cons_Cons zip_Nil not_True_eq_False
        not_False_eq_True)
  have usd: "volumeUSD r = fmul (Fin (1351079888211149 / 2251799813685248)) (Fin 1)"
    using b(6) unfolding vol by (simp only: vol0_def Volumes.simps)
  have a: "fst (analyzeOffMarketSales env_silent w_init ts info_demo (Fin 1)) = Inr r"
    by (simp add: r)
  have l: "fst (forEachLargeTransfer env_silent w_init (decimals info_demo) noVolumes large) = Inr vol"
    unfolding dec by (rule b(1))
  from a l t bl ab b(6) usd
  have "\<exists>r vol.
      fst (analyzeOffMarketSales env_silent w_init ts info_demo (Fin 1)) = Inr r \<and>
      fst (forEachLargeTransfer env_silent w_init (decimals info_demo) noVolumes large) = Inr vol \<and>
      totalVolumeTokens vol =
        foldl fadd (Fin 0)
          [Fin (3602879701896397 / 36028797018963968),
           Fin (3602879701896397 / 18014398509481984),
           Fin (5404319552844595 / 18014398509481984)] \<and>
      belowPriceVolume vol = foldl fadd (Fin 0) [Fin (3602879701896397 / 36028797018963968)] \<and>
      abovePriceVolume vol =
        foldl fadd (Fin 0)
          [Fin (3602879701896397 / 18014398509481984),
           Fin (5404319552844595 / 18014398509481984)] \<and>
      volumeUSD r = fmul (totalVolumeTokens vol) (Fin 1) \<and>
      volumeUSD r = fmul (Fin (1351079888211149 / 2251799813685248)) (Fin 1)"
    by blast
  with ne pos outcomes show ?thesis
    unfolding large_def ts_def by blast
qed

end
